theory Spec2Isabelle
  imports Complex_Main
begin

section \<open>The JavaScript platform underneath the validator\<close>

text \<open>
  The validator is TypeScript running on a JavaScript engine.  This section models the
  built-in operations that \<^verbatim>\<open>parse.ts\<close>, \<^verbatim>\<open>validate.ts\<close> and \<^verbatim>\<open>data-store.ts\<close> call.
  What ECMAScript fixes is defined here; what it leaves to the engine (date parsing, the
  regular-expression engine, case mapping beyond Latin-1, the text of engine messages,
  the clock) is a field of the record \<open>platform\<close>, and every function that depends on it
  takes the platform as its first argument.

  A JavaScript string is the list of its UTF-16 code units, each an integer from 0 to
  65535 (\<open>utf16\<close>); \<open>str\<close> embeds a literal of ASCII or Latin-1 text, one code unit per
  character.
\<close>

type_synonym codeUnit = int

type_synonym utf16 = "codeUnit list"

abbreviation str :: "string \<Rightarrow> utf16" where
  "str s \<equiv> map of_char s"

subsection \<open>Numbers\<close>

text \<open>
  A Number is NaN, an infinity, or a finite double, kept as the rational it denotes
  (\<open>+0\<close> and \<open>-0\<close> are both \<open>Fin 0\<close>: no operation used here tells them apart).
\<close>

datatype jsnum = NaN | NegInf | Fin rat | PosInf

definition isNaN :: "jsnum \<Rightarrow> bool" where
  "isNaN n = (n = NaN)"

text \<open>The operator \<^verbatim>\<open>a < b\<close> on two Numbers; \<^verbatim>\<open>a > b\<close> is \<open>js_less b a\<close>.\<close>

fun js_less :: "jsnum \<Rightarrow> jsnum \<Rightarrow> bool" where
  "js_less (Fin a) (Fin b) = (a < b)"
| "js_less (Fin a) PosInf = True"
| "js_less NegInf (Fin b) = True"
| "js_less NegInf PosInf = True"
| "js_less _ _ = False"

text \<open>
  Rounding a real value to the nearest double, ties to even (IEEE 754 binary64: 53
  significant bits, exponents from \<open>-1022\<close> to \<open>1023\<close>, overflow to an infinity).
\<close>

fun log2i :: "int \<Rightarrow> nat" where
  "log2i n = (if n < 2 then 0 else Suc (log2i (n div 2)))"

declare log2i.simps [simp del]

definition pow2 :: "int \<Rightarrow> rat" where
  "pow2 e = (if 0 \<le> e then 2 ^ nat e else 1 / 2 ^ nat (- e))"

definition floor_log2 :: "rat \<Rightarrow> int" where
  "floor_log2 r =
     (let (a, b) = quotient_of r; d = int (log2i a) - int (log2i b)
      in if pow2 d \<le> r then d else d - 1)"

definition round_half_even :: "rat \<Rightarrow> int" where
  "round_half_even x =
     (let f = \<lfloor>x\<rfloor>; d = x - of_int f
      in if d < 1 / 2 then f else if 1 / 2 < d then f + 1
         else if even f then f else f + 1)"

definition to_double :: "rat \<Rightarrow> jsnum" where
  "to_double r =
     (if r = 0 then Fin 0
      else let a = \<bar>r\<bar>; e = max (floor_log2 a) (- 1022); q = pow2 (e - 52);
               m = round_half_even (a / q)
           in if 1023 < e \<or> (e = 1023 \<and> m = 2 ^ 53) then (if r < 0 then NegInf else PosInf)
              else Fin (if r < 0 then - (of_int m * q) else of_int m * q))"

subsection \<open>Strings\<close>

text \<open>
  \<^verbatim>\<open>String.prototype.trim\<close> strips WhiteSpace and LineTerminator code units: the ASCII
  controls TAB, LF, VT, FF and CR, the space, the no-break space, the other space
  separators of Unicode, the line and paragraph separators and the byte order mark.
\<close>

definition isWhiteSpace :: "codeUnit \<Rightarrow> bool" where
  "isWhiteSpace c =
     (c = 0x09 \<or> c = 0x0A \<or> c = 0x0B \<or> c = 0x0C \<or> c = 0x0D \<or> c = 0x20 \<or> c = 0xA0
      \<or> c = 0x1680 \<or> (0x2000 \<le> c \<and> c \<le> 0x200A) \<or> c = 0x2028 \<or> c = 0x2029
      \<or> c = 0x202F \<or> c = 0x205F \<or> c = 0x3000 \<or> c = 0xFEFF)"

definition trim :: "utf16 \<Rightarrow> utf16" where
  "trim s = rev (dropWhile isWhiteSpace (rev (dropWhile isWhiteSpace s)))"

definition isDigit :: "codeUnit \<Rightarrow> bool" where
  "isDigit c = (of_char CHR ''0'' \<le> c \<and> c \<le> of_char CHR ''9'')"

text \<open>The value of a digit in bases up to 16 (\<open>None\<close> when the character is no digit).\<close>

definition digitValue :: "codeUnit \<Rightarrow> nat option" where
  "digitValue c =
     (if of_char CHR ''0'' \<le> c \<and> c \<le> of_char CHR ''9'' then Some (nat (c - of_char CHR ''0''))
      else if of_char CHR ''a'' \<le> c \<and> c \<le> of_char CHR ''f'' then Some (nat (c - of_char CHR ''a'') + 10)
      else if of_char CHR ''A'' \<le> c \<and> c \<le> of_char CHR ''F'' then Some (nat (c - of_char CHR ''A'') + 10)
      else None)"

definition isDigitOf :: "nat \<Rightarrow> codeUnit \<Rightarrow> bool" where
  "isDigitOf base c = (case digitValue c of None \<Rightarrow> False | Some d \<Rightarrow> d < base)"

definition digitsValue :: "nat \<Rightarrow> utf16 \<Rightarrow> int" where
  "digitsValue base s =
     foldl (\<lambda>n c. int base * n + (case digitValue c of None \<Rightarrow> 0 | Some d \<Rightarrow> int d)) 0 s"

text \<open>The ASCII letters.\<close>

definition isLower :: "codeUnit \<Rightarrow> bool" where
  "isLower c = (of_char CHR ''a'' \<le> c \<and> c \<le> of_char CHR ''z'')"

definition isUpper :: "codeUnit \<Rightarrow> bool" where
  "isUpper c = (of_char CHR ''A'' \<le> c \<and> c \<le> of_char CHR ''Z'')"

subsection \<open>Converting a string to a Number\<close>

text \<open>
  \<^verbatim>\<open>Number(s)\<close> on a string is ECMAScript's StringToNumber: surrounding white space is
  stripped; the empty string is 0; the rest must be a StrNumericLiteral (an optionally
  signed decimal literal or \<^verbatim>\<open>Infinity\<close>, or an unsigned binary, octal or hexadecimal
  integer), else the result is NaN.  The literal's value is rounded to a double.
\<close>

definition nonDecimalIntegerLiteral :: "utf16 \<Rightarrow> int option" where
  "nonDecimalIntegerLiteral t =
     (case t of
        c0 # c1 # ds \<Rightarrow>
          (let base = (if c1 = of_char CHR ''x'' \<or> c1 = of_char CHR ''X'' then 16
                       else if c1 = of_char CHR ''o'' \<or> c1 = of_char CHR ''O'' then 8
                       else if c1 = of_char CHR ''b'' \<or> c1 = of_char CHR ''B'' then 2 else (0::nat))
           in if c0 = of_char CHR ''0'' \<and> base \<noteq> 0 \<and> ds \<noteq> [] \<and> list_all (isDigitOf base) ds
              then Some (digitsValue base ds) else None)
      | _ \<Rightarrow> None)"

definition decimalDigits :: "utf16 \<Rightarrow> int option" where
  "decimalDigits ds = (if ds \<noteq> [] \<and> list_all isDigit ds then Some (digitsValue 10 ds) else None)"

definition signedInteger :: "utf16 \<Rightarrow> int option" where
  "signedInteger ds =
     (case ds of
        [] \<Rightarrow> None
      | c # r \<Rightarrow>
          if c = of_char CHR ''+'' then decimalDigits r
          else if c = of_char CHR ''-'' then map_option uminus (decimalDigits r)
          else decimalDigits ds)"

definition exponentPart :: "utf16 \<Rightarrow> int option" where
  "exponentPart r =
     (case r of
        [] \<Rightarrow> Some 0
      | c # ds \<Rightarrow> if c = of_char CHR ''e'' \<or> c = of_char CHR ''E'' then signedInteger ds else None)"

definition strUnsignedDecimalLiteral :: "utf16 \<Rightarrow> rat option" where
  "strUnsignedDecimalLiteral s =
     (let ip = takeWhile isDigit s; r1 = dropWhile isDigit s;
          fp = (case r1 of c # r \<Rightarrow> if c = of_char CHR ''.'' then takeWhile isDigit r else [] | [] \<Rightarrow> []);
          r2 = (case r1 of c # r \<Rightarrow> if c = of_char CHR ''.'' then dropWhile isDigit r else r1 | [] \<Rightarrow> [])
      in if ip = [] \<and> fp = [] then None
         else case exponentPart r2 of
                None \<Rightarrow> None
              | Some ex \<Rightarrow>
                  Some ((of_int (digitsValue 10 ip) + of_int (digitsValue 10 fp) / 10 ^ length fp)
                        * 10 powi ex))"

definition strDecimalLiteral :: "bool \<Rightarrow> utf16 \<Rightarrow> jsnum" where
  "strDecimalLiteral neg r =
     (if r = str ''Infinity'' then (if neg then NegInf else PosInf)
      else case strUnsignedDecimalLiteral r of
             None \<Rightarrow> NaN
           | Some q \<Rightarrow> to_double (if neg then - q else q))"

definition Number :: "utf16 \<Rightarrow> jsnum" where
  "Number s =
     (let t = trim s
      in if t = [] then Fin 0
         else case nonDecimalIntegerLiteral t of
                Some n \<Rightarrow> to_double (of_int n)
              | None \<Rightarrow>
                  (case t of
                     c # r \<Rightarrow>
                       if c = of_char CHR ''+'' then strDecimalLiteral False r
                       else if c = of_char CHR ''-'' then strDecimalLiteral True r
                       else strDecimalLiteral False t
                   | [] \<Rightarrow> Fin 0))"

subsection \<open>Writing numbers\<close>

text \<open>A non-negative integer in a radix from 2 to 36, as \<^verbatim>\<open>Number.prototype.toString\<close> writes it.\<close>

definition digitChar :: "int \<Rightarrow> codeUnit" where
  "digitChar d = (if d < 10 then of_char CHR ''0'' + d else of_char CHR ''a'' + (d - 10))"

function radixString :: "int \<Rightarrow> int \<Rightarrow> utf16" where
  "radixString base n =
     (if base < 2 \<or> n < base then [digitChar n]
      else radixString base (n div base) @ [digitChar (n mod base)])"
  by pat_completeness auto
termination
proof (relation "measure (\<lambda>(base, n). nat n)")
  show "wf (measure (\<lambda>(base, n). nat n))" by simp
next
  fix base n :: int
  assume "\<not> (base < 2 \<or> n < base)"
  then have "2 \<le> base" and "base \<le> n" by auto
  then have "n div base < n" by (simp add: int_div_less_self)
  moreover have "0 < n" using \<open>2 \<le> base\<close> \<open>base \<le> n\<close> by linarith
  ultimately show "((base, n div base), (base, n)) \<in> measure (\<lambda>(base, n). nat n)" by simp
qed

declare radixString.simps [simp del]

subsection \<open>What the engine decides\<close>

text \<open>
  \<^item> \<open>Date_valid s\<close>: \<^verbatim>\<open>!isNaN(new Date(s).getTime())\<close>; outside the ISO format the date
    parser is implementation-defined.
  \<^item> \<open>RegExp_new p\<close>: \<^verbatim>\<open>new RegExp(p)\<close>, either \<open>Inl m\<close> (a SyntaxError with message \<open>m\<close>
    is thrown) or \<open>Inr t\<close>, a regular expression whose \<^verbatim>\<open>test\<close> method is \<open>t\<close>.
  \<^item> \<open>Number_toString_other r\<close>: \<^verbatim>\<open>String(x)\<close> for a finite \<open>x\<close> that is not an integer of
    magnitude at most \<open>2^53\<close> (an integer in that range is written in decimal).
  \<^item> \<open>Function_toString f\<close>: \<^verbatim>\<open>String\<close> of the built-in function named \<open>f\<close>.
  \<^item> \<open>toLowerCase_Unicode s\<close>: \<^verbatim>\<open>s.toLowerCase()\<close> for a string with a code unit above 255,
    where the result follows the Unicode character database that the engine ships.
  \<^item> \<open>not_iterable e\<close>: the message of the TypeError raised when the value of the
    expression \<open>e\<close> is spread although it is not iterable.
  \<^item> \<open>Date_now k\<close>: the clock, in milliseconds, read while the \<open>k\<close>-th row id of the
    process is generated; \<open>Date_toISOString k\<close>: the ISO time stamp read by a \<^verbatim>\<open>parse\<close> that
    ends with \<open>k\<close> row ids generated so far.
\<close>

record platform =
  Date_valid :: "utf16 \<Rightarrow> bool"
  RegExp_new :: "utf16 \<Rightarrow> utf16 + (utf16 \<Rightarrow> bool)"
  Number_toString_other :: "rat \<Rightarrow> utf16"
  Function_toString :: "utf16 \<Rightarrow> utf16"
  toLowerCase_Unicode :: "utf16 \<Rightarrow> utf16"
  not_iterable :: "utf16 \<Rightarrow> utf16"
  Date_now :: "nat \<Rightarrow> int"
  Date_toISOString :: "nat \<Rightarrow> utf16"

definition Number_toString :: "platform \<Rightarrow> jsnum \<Rightarrow> utf16" where
  "Number_toString P x =
     (case x of
        NaN \<Rightarrow> str ''NaN''
      | PosInf \<Rightarrow> str ''Infinity''
      | NegInf \<Rightarrow> str ''-Infinity''
      | Fin r \<Rightarrow>
          if r = of_int \<lfloor>r\<rfloor> \<and> \<bar>r\<bar> \<le> 2 ^ 53
          then (if r < 0 then str ''-'' else []) @ radixString 10 \<bar>\<lfloor>r\<rfloor>\<bar>
          else Number_toString_other P r)"

subsection \<open>Objects\<close>

text \<open>
  A plain object is the list of its own enumerable string-keyed properties, in the order
  \<^verbatim>\<open>Object.keys\<close>, \<^verbatim>\<open>Object.entries\<close> and object spread visit them: array-index keys in
  ascending numeric order first, then the other keys in creation order.
  Copying an object (\<^verbatim>\<open>{...o}\<close>) yields the same list.
\<close>

type_synonym 'a props = "(utf16 \<times> 'a) list"

definition arrayIndex :: "utf16 \<Rightarrow> int option" where
  "arrayIndex k =
     (if k \<noteq> [] \<and> list_all isDigit k \<and> (k = str ''0'' \<or> hd k \<noteq> of_char CHR ''0'')
         \<and> digitsValue 10 k < 4294967295
      then Some (digitsValue 10 k) else None)"

fun insertIndexed :: "int \<Rightarrow> utf16 \<Rightarrow> 'a \<Rightarrow> 'a props \<Rightarrow> 'a props" where
  "insertIndexed n k v [] = [(k, v)]"
| "insertIndexed n k v ((k', v') # ps) =
     (case arrayIndex k' of
        Some m \<Rightarrow> if m < n then (k', v') # insertIndexed n k v ps else (k, v) # (k', v') # ps
      | None \<Rightarrow> (k, v) # (k', v') # ps)"

text \<open>
  CreateDataProperty, as performed by \<^verbatim>\<open>JSON.parse\<close>, by object spread and by a computed
  key in an object literal: an existing own property keeps its place and takes the new
  value, a new one is added.
\<close>

definition defineProperty :: "utf16 \<Rightarrow> 'a \<Rightarrow> 'a props \<Rightarrow> 'a props" where
  "defineProperty k v ps =
     (case map_of ps k of
        Some _ \<Rightarrow> map (\<lambda>(k', v'). if k' = k then (k', v) else (k', v')) ps
      | None \<Rightarrow>
          (case arrayIndex k of
             Some n \<Rightarrow> insertIndexed n k v ps
           | None \<Rightarrow> ps @ [(k, v)]))"

definition deleteProperty :: "utf16 \<Rightarrow> 'a props \<Rightarrow> 'a props" where
  "deleteProperty k ps = filter (\<lambda>(k', v'). k' \<noteq> k) ps"

text \<open>
  Every object literal inherits from \<^verbatim>\<open>Object.prototype\<close>: reading a key that is not an own
  property finds one of its methods, or, for \<^verbatim>\<open>__proto__\<close>, the prototype object itself.
  \<open>Object_prototype_functions\<close> pairs each inherited method's key with the method's name.
\<close>

definition Object_prototype_functions :: "(utf16 \<times> utf16) list" where
  "Object_prototype_functions =
     [(str ''constructor'', str ''Object''),
      (str ''__defineGetter__'', str ''__defineGetter__''),
      (str ''__defineSetter__'', str ''__defineSetter__''),
      (str ''hasOwnProperty'', str ''hasOwnProperty''),
      (str ''__lookupGetter__'', str ''__lookupGetter__''),
      (str ''__lookupSetter__'', str ''__lookupSetter__''),
      (str ''isPrototypeOf'', str ''isPrototypeOf''),
      (str ''propertyIsEnumerable'', str ''propertyIsEnumerable''),
      (str ''toString'', str ''toString''),
      (str ''valueOf'', str ''valueOf''),
      (str ''toLocaleString'', str ''toLocaleString'')]"

text \<open>The keys under which every object literal finds an inherited member.\<close>

definition Object_prototype_keys :: "utf16 list" where
  "Object_prototype_keys = str ''__proto__'' # map fst Object_prototype_functions"

datatype 'a lookup = Own 'a | InheritedFunction utf16 | PrototypeObject | Absent

definition getProperty :: "'a props \<Rightarrow> utf16 \<Rightarrow> 'a lookup" where
  "getProperty ps k =
     (case map_of ps k of
        Some v \<Rightarrow> Own v
      | None \<Rightarrow>
          if k = str ''__proto__'' then PrototypeObject
          else (case map_of Object_prototype_functions k of
                  Some f \<Rightarrow> InheritedFunction f
                | None \<Rightarrow> Absent))"

text \<open>
  An object whose prototype can change: the assignment \<^verbatim>\<open>o["__proto__"] = v\<close> on an object
  that inherits the \<^verbatim>\<open>__proto__\<close> accessor and has no own property of that name calls the
  accessor's setter, which replaces the prototype when \<open>v\<close> is null and does nothing when
  \<open>v\<close> is a primitive; it never creates an own property.
\<close>

datatype prototype = ObjectPrototype | NullPrototype

record 'a object =
  props :: "'a props"
  proto :: prototype

definition emptyObject :: "'a object" where
  "emptyObject = \<lparr>props = [], proto = ObjectPrototype\<rparr>"

section \<open>The data model (\<^verbatim>\<open>types.ts\<close>)\<close>

text \<open>
  Field names follow the source; where two interfaces share a field name the second one
  carries a prefix: a rule's \<^verbatim>\<open>type\<close>, \<^verbatim>\<open>value\<close> and \<^verbatim>\<open>message\<close> are \<open>rule_type\<close>, \<open>rule_value\<close>
  and \<open>rule_message\<close>; the rule kinds \<^verbatim>\<open>MIN\<close> and \<^verbatim>\<open>MAX\<close> are \<open>MIN_VALUE\<close> and \<open>MAX_VALUE\<close>; a row's \<^verbatim>\<open>id\<close> is \<open>row_id\<close>; an error object's \<^verbatim>\<open>message\<close> is
  \<open>error_message\<close>.  An optional field has an option type.
\<close>

datatype CellType = STRING | NUMBER | BOOLEAN | DATE

datatype ValidationRuleType = REQUIRED | MIN_VALUE | MAX_VALUE | PATTERN | MIN_LENGTH | MAX_LENGTH

datatype operand = NumberValue jsnum | StringValue utf16

record ValidationRule =
  rule_type :: ValidationRuleType
  rule_value :: "operand option"
  rule_message :: "utf16 option"

record ValidationError =
  rule :: ValidationRuleType
  message :: utf16
  column :: utf16

record Column =
  key :: utf16
  label :: utf16
  type :: CellType
  validation :: "ValidationRule list option"

text \<open>
  \<^verbatim>\<open>CellValue = string | number | boolean | null\<close>.  \<open>VObject\<close> stands for an object or
  function: the static type excludes it, but \<^verbatim>\<open>validateRow\<close> hands one to \<^verbatim>\<open>validateCell\<close>
  when it reads a column key that the cells inherit from \<^verbatim>\<open>Object.prototype\<close>.
\<close>

datatype CellValue = VNull | VBool bool | VNum jsnum | VStr utf16 | VObject

record Row =
  row_id :: utf16
  cells :: "CellValue object"
  errors :: "ValidationError list props"

record DataSetMetadata =
  meta_fileName :: utf16
  rowCount :: nat
  columnCount :: nat
  importedAt :: utf16

record DataSet =
  columns :: "Column list"
  rows :: "Row list"
  metadata :: DataSetMetadata

record CellEdit =
  edit_rowId :: utf16
  edit_columnKey :: utf16
  edit_value :: CellValue

record ParseOptions =
  maxFileSize :: "int option"
  maxNestingDepth :: "int option"
  fileName :: "utf16 option"

subsection \<open>Messages\<close>

definition EXPECTED_NUMBER :: utf16 where
  "EXPECTED_NUMBER = str ''Expected a number value''"

definition EXPECTED_BOOLEAN :: utf16 where
  "EXPECTED_BOOLEAN = str ''Expected a boolean value''"

definition EXPECTED_DATE :: utf16 where
  "EXPECTED_DATE = str ''Expected a valid date''"

definition REQUIRED_MESSAGE :: utf16 where
  "REQUIRED_MESSAGE = str ''This field is required''"

definition MIN_MESSAGE :: "platform \<Rightarrow> jsnum \<Rightarrow> utf16" where
  "MIN_MESSAGE P n = str ''Value must be at least '' @ Number_toString P n"

definition MAX_MESSAGE :: "platform \<Rightarrow> jsnum \<Rightarrow> utf16" where
  "MAX_MESSAGE P n = str ''Value must be at most '' @ Number_toString P n"

definition PATTERN_MESSAGE :: utf16 where
  "PATTERN_MESSAGE = str ''Value does not match required pattern''"

definition MIN_LENGTH_MESSAGE :: "platform \<Rightarrow> jsnum \<Rightarrow> utf16" where
  "MIN_LENGTH_MESSAGE P n = str ''Value must be at least '' @ Number_toString P n @ str '' characters''"

definition MAX_LENGTH_MESSAGE :: "platform \<Rightarrow> jsnum \<Rightarrow> utf16" where
  "MAX_LENGTH_MESSAGE P n = str ''Value must be at most '' @ Number_toString P n @ str '' characters''"

subsection \<open>Error classes\<close>

record DataValidatorError =
  name :: utf16
  code :: utf16
  error_message :: utf16

definition new_DataValidatorError :: "utf16 \<Rightarrow> utf16 \<Rightarrow> DataValidatorError" where
  "new_DataValidatorError c m = \<lparr>name = str ''DataValidatorError'', code = c, error_message = m\<rparr>"

definition ParseError :: "utf16 \<Rightarrow> DataValidatorError" where
  "ParseError m = (new_DataValidatorError (str ''PARSE_ERROR'') m)\<lparr>name := str ''ParseError''\<rparr>"

text \<open>
  \<^verbatim>\<open>(size / 1024 / 1024).toFixed(2)\<close> for an integral byte count: the division is exact in
  binary floating point, and \<^verbatim>\<open>toFixed\<close> writes the sign and then the multiple of \<open>1/100\<close>
  nearest to the magnitude, the larger one on a tie.
\<close>

definition megabytes :: "int \<Rightarrow> utf16" where
  "megabytes bytes =
     (let n = (200 * \<bar>bytes\<bar> + 1048576) div 2097152;
          ds = radixString 10 n;
          ds' = replicate (3 - length ds) (of_char CHR ''0'') @ ds
      in (if bytes < 0 then str ''-'' else []) @ take (length ds' - 2) ds' @ str ''.''
         @ drop (length ds' - 2) ds')"

definition FileSizeError :: "int \<Rightarrow> int \<Rightarrow> DataValidatorError" where
  "FileSizeError bytes maxSize =
     (new_DataValidatorError (str ''FILE_SIZE_ERROR'')
        (str ''File size '' @ megabytes bytes @ str ''MB exceeds maximum allowed size of ''
           @ megabytes maxSize @ str ''MB''))\<lparr>name := str ''FileSizeError''\<rparr>"

text \<open>What a function can throw: an engine error with its message, or an error of the SDK.\<close>

datatype thrown = TypeError utf16 | SyntaxError utf16 | Failure DataValidatorError

section \<open>The rule validator (\<^verbatim>\<open>validate.ts\<close>)\<close>

text \<open>
  \<^verbatim>\<open>String.prototype.toLowerCase\<close>: in ASCII and Latin-1 text the capital letters (\<^verbatim>\<open>A\<close> to
  \<^verbatim>\<open>Z\<close>, and \<open>0xC0\<close> to \<open>0xDE\<close> without the multiplication sign \<open>0xD7\<close>) move up by 32 and
  every other code unit stays; other text is lowered by the engine's Unicode tables.
\<close>

definition toLowerCase :: "platform \<Rightarrow> utf16 \<Rightarrow> utf16" where
  "toLowerCase P s =
     (if list_all (\<lambda>c. c \<le> 0xFF) s
      then map (\<lambda>c. if isUpper c \<or> (0xC0 \<le> c \<and> c \<le> 0xDE \<and> c \<noteq> 0xD7) then c + 32 else c) s
      else toLowerCase_Unicode P s)"

definition validateType :: "platform \<Rightarrow> CellValue \<Rightarrow> CellType \<Rightarrow> utf16 \<Rightarrow> ValidationError list" where
  "validateType P v t columnKey =
     (if v = VNull then []
      else case t of
        NUMBER \<Rightarrow>
          (case v of
             VNum _ \<Rightarrow> []
           | VStr s \<Rightarrow>
               if \<not> isNaN (Number s) \<and> trim s \<noteq> []
               then []
               else [\<lparr>rule = REQUIRED, message = EXPECTED_NUMBER, column = columnKey\<rparr>]
           | _ \<Rightarrow> [\<lparr>rule = REQUIRED, message = EXPECTED_NUMBER, column = columnKey\<rparr>])
      | BOOLEAN \<Rightarrow>
          (case v of
             VBool _ \<Rightarrow> []
           | VStr s \<Rightarrow>
               if toLowerCase P s \<in> set [str ''true'', str ''false'', str ''yes'', str ''no'', str ''1'', str ''0'']
               then []
               else [\<lparr>rule = REQUIRED, message = EXPECTED_BOOLEAN, column = columnKey\<rparr>]
           | _ \<Rightarrow> [\<lparr>rule = REQUIRED, message = EXPECTED_BOOLEAN, column = columnKey\<rparr>])
      | DATE \<Rightarrow>
          (case v of
             VStr s \<Rightarrow>
               if Date_valid P s
               then []
               else [\<lparr>rule = REQUIRED, message = EXPECTED_DATE, column = columnKey\<rparr>]
           | _ \<Rightarrow> [\<lparr>rule = REQUIRED, message = EXPECTED_DATE, column = columnKey\<rparr>])
      | STRING \<Rightarrow> [])"

text \<open>
  \<^verbatim>\<open>validateRule\<close> returns an error, or null (\<open>None\<close>); the \<^verbatim>\<open>pattern\<close> case builds a
  \<^verbatim>\<open>RegExp\<close> from the operand, and the exception of that constructor is not caught.
\<close>

definition validateRule ::
  "platform \<Rightarrow> CellValue \<Rightarrow> ValidationRule \<Rightarrow> utf16 \<Rightarrow> thrown + ValidationError option" where
  "validateRule P v r columnKey =
     (case rule_type r of
        REQUIRED \<Rightarrow>
          if v = VNull \<or> v = VStr []
          then Inr (Some \<lparr>rule = REQUIRED,
                          message = (case rule_message r of Some m \<Rightarrow> m | None \<Rightarrow> REQUIRED_MESSAGE),
                          column = columnKey\<rparr>)
          else Inr None
      | MIN_VALUE \<Rightarrow>
          (case (v, rule_value r) of
             (VNum x, Some (NumberValue n)) \<Rightarrow>
               if js_less x n
               then Inr (Some \<lparr>rule = MIN_VALUE,
                               message = (case rule_message r of Some m \<Rightarrow> m | None \<Rightarrow> MIN_MESSAGE P n),
                               column = columnKey\<rparr>)
               else Inr None
           | _ \<Rightarrow> Inr None)
      | MAX_VALUE \<Rightarrow>
          (case (v, rule_value r) of
             (VNum x, Some (NumberValue n)) \<Rightarrow>
               if js_less n x
               then Inr (Some \<lparr>rule = MAX_VALUE,
                               message = (case rule_message r of Some m \<Rightarrow> m | None \<Rightarrow> MAX_MESSAGE P n),
                               column = columnKey\<rparr>)
               else Inr None
           | _ \<Rightarrow> Inr None)
      | PATTERN \<Rightarrow>
          (case (v, rule_value r) of
             (VStr s, Some (StringValue p)) \<Rightarrow>
               (case RegExp_new P p of
                  Inl m \<Rightarrow> Inl (SyntaxError m)
                | Inr test \<Rightarrow>
                    if \<not> test s
                    then Inr (Some \<lparr>rule = PATTERN,
                                    message = (case rule_message r of Some m \<Rightarrow> m | None \<Rightarrow> PATTERN_MESSAGE),
                                    column = columnKey\<rparr>)
                    else Inr None)
           | _ \<Rightarrow> Inr None)
      | MIN_LENGTH \<Rightarrow>
          (case (v, rule_value r) of
             (VStr s, Some (NumberValue n)) \<Rightarrow>
               if js_less (Fin (of_nat (length s))) n
               then Inr (Some \<lparr>rule = MIN_LENGTH,
                               message = (case rule_message r of Some m \<Rightarrow> m
                                          | None \<Rightarrow> MIN_LENGTH_MESSAGE P n),
                               column = columnKey\<rparr>)
               else Inr None
           | _ \<Rightarrow> Inr None)
      | MAX_LENGTH \<Rightarrow>
          (case (v, rule_value r) of
             (VStr s, Some (NumberValue n)) \<Rightarrow>
               if js_less n (Fin (of_nat (length s)))
               then Inr (Some \<lparr>rule = MAX_LENGTH,
                               message = (case rule_message r of Some m \<Rightarrow> m
                                          | None \<Rightarrow> MAX_LENGTH_MESSAGE P n),
                               column = columnKey\<rparr>)
               else Inr None
           | _ \<Rightarrow> Inr None))"

text \<open>The loop of \<^verbatim>\<open>validateCell\<close> over the column's rules, in declaration order.\<close>

fun validateRules ::
  "platform \<Rightarrow> CellValue \<Rightarrow> ValidationRule list \<Rightarrow> utf16 \<Rightarrow> thrown + ValidationError list" where
  "validateRules P v [] columnKey = Inr []"
| "validateRules P v (r # rs) columnKey =
     (case validateRule P v r columnKey of
        Inl e \<Rightarrow> Inl e
      | Inr ruleError \<Rightarrow>
          (case validateRules P v rs columnKey of
             Inl e \<Rightarrow> Inl e
           | Inr es \<Rightarrow> Inr ((case ruleError of None \<Rightarrow> [] | Some e \<Rightarrow> [e]) @ es)))"

definition validateCell :: "platform \<Rightarrow> CellValue \<Rightarrow> Column \<Rightarrow> thrown + ValidationError list" where
  "validateCell P v c =
     (let typeErrors = validateType P v (type c) (key c)
      in case validation c of
           None \<Rightarrow> Inr typeErrors
         | Some rs \<Rightarrow>
             (case validateRules P v rs (key c) of
                Inl e \<Rightarrow> Inl e
              | Inr es \<Rightarrow> Inr (typeErrors @ es)))"

text \<open>\<^verbatim>\<open>row.cells[k] ?? null\<close>: an own property, an inherited one, or null.\<close>

definition readCell :: "CellValue object \<Rightarrow> utf16 \<Rightarrow> CellValue" where
  "readCell obj k =
     (case map_of (props obj) k of
        Some v \<Rightarrow> v
      | None \<Rightarrow>
          (case proto obj of
             NullPrototype \<Rightarrow> VNull
           | ObjectPrototype \<Rightarrow>
               (case getProperty ([] :: CellValue props) k of
                  Absent \<Rightarrow> VNull
                | _ \<Rightarrow> VObject)))"

text \<open>
  \<^verbatim>\<open>errors[k] = cellErrors\<close> on an error map: for \<^verbatim>\<open>__proto__\<close> the inherited setter makes
  the array the map's prototype and adds no own property (the prototype of an error map
  is never read, so it is not kept).
\<close>

definition assignErrors ::
  "utf16 \<Rightarrow> ValidationError list \<Rightarrow> ValidationError list props \<Rightarrow> ValidationError list props" where
  "assignErrors k es ps =
     (if k = str ''__proto__'' \<and> map_of ps k = None then ps else defineProperty k es ps)"

fun validateRow_loop ::
  "platform \<Rightarrow> Row \<Rightarrow> Column list \<Rightarrow> ValidationError list props
     \<Rightarrow> thrown + ValidationError list props" where
  "validateRow_loop P row [] errs = Inr errs"
| "validateRow_loop P row (c # cs) errs =
     (case validateCell P (readCell (cells row) (key c)) c of
        Inl e \<Rightarrow> Inl e
      | Inr cellErrors \<Rightarrow>
          validateRow_loop P row cs
            (if 0 < length cellErrors then assignErrors (key c) cellErrors errs else errs))"

definition validateRow :: "platform \<Rightarrow> Row \<Rightarrow> Column list \<Rightarrow> thrown + ValidationError list props" where
  "validateRow P row cols = validateRow_loop P row cols []"

fun validateAllRows :: "platform \<Rightarrow> Row list \<Rightarrow> Column list \<Rightarrow> thrown + Row list" where
  "validateAllRows P [] cols = Inr []"
| "validateAllRows P (row # rs) cols =
     (case validateRow P row cols of
        Inl e \<Rightarrow> Inl e
      | Inr errs \<Rightarrow>
          (case validateAllRows P rs cols of
             Inl e \<Rightarrow> Inl e
           | Inr rs' \<Rightarrow> Inr (row\<lparr>errors := errs\<rparr> # rs')))"

section \<open>JSON\<close>

datatype json =
  JNull | JBool bool | JNum jsnum | JStr utf16 | JArr "json list" | JObj "(utf16 \<times> json) list"

subsection \<open>\<^verbatim>\<open>JSON.parse\<close>\<close>

text \<open>
  The text is cut into tokens by a state machine over its characters, and the tokens are
  assembled by a stack machine; both are structurally recursive, so \<open>JSON_parse\<close> is total:
  \<open>None\<close> is the SyntaxError of \<^verbatim>\<open>JSON.parse\<close>.  A \<^verbatim>\<open>\u\<close> escape yields the code unit that its
  four hexadecimal digits name.
\<close>

datatype token =
  TLBrace | TRBrace | TLBracket | TRBracket | TColon | TComma
  | TString utf16 | TNumber jsnum | TTrue | TFalse | TNull

definition jsonNumber :: "utf16 \<Rightarrow> jsnum option" where
  "jsonNumber w =
     (let neg = (w \<noteq> [] \<and> hd w = of_char CHR ''-'');
          u = (if neg then tl w else w);
          ip = takeWhile isDigit u; r1 = dropWhile isDigit u;
          dot = (r1 \<noteq> [] \<and> hd r1 = of_char CHR ''.'');
          fp = (if dot then takeWhile isDigit (tl r1) else [])
      in if ip = [] \<or> (1 < length ip \<and> hd ip = of_char CHR ''0'') \<or> (dot \<and> fp = []) then None
         else case strUnsignedDecimalLiteral u of
                None \<Rightarrow> None
              | Some q \<Rightarrow> Some (to_double (if neg then - q else q)))"

definition wordToken :: "utf16 \<Rightarrow> token option" where
  "wordToken w =
     (if w = str ''true'' then Some TTrue
      else if w = str ''false'' then Some TFalse
      else if w = str ''null'' then Some TNull
      else map_option TNumber (jsonNumber w))"

definition isWordChar :: "codeUnit \<Rightarrow> bool" where
  "isWordChar c =
     (isDigit c \<or> isLower c \<or> isUpper c \<or> c = of_char CHR ''-'' \<or> c = of_char CHR ''+'' \<or> c = of_char CHR ''.'')"

datatype lexmode =
  LIdle | LWord utf16 | LString utf16 | LEscape utf16 | LUnicode utf16 utf16

definition lexIdle :: "token list \<Rightarrow> codeUnit \<Rightarrow> (lexmode \<times> token list) option" where
  "lexIdle acc c =
     (if c = of_char CHR '' '' \<or> c = 0x09 \<or> c = 0x0A \<or> c = 0x0D then Some (LIdle, acc)
      else if c = of_char CHR ''{'' then Some (LIdle, acc @ [TLBrace])
      else if c = of_char CHR ''}'' then Some (LIdle, acc @ [TRBrace])
      else if c = of_char CHR ''['' then Some (LIdle, acc @ [TLBracket])
      else if c = of_char CHR '']'' then Some (LIdle, acc @ [TRBracket])
      else if c = of_char CHR '':'' then Some (LIdle, acc @ [TColon])
      else if c = of_char CHR '','' then Some (LIdle, acc @ [TComma])
      else if c = 0x22 then Some (LString [], acc)
      else if isWordChar c then Some (LWord [c], acc)
      else None)"

definition lexStep :: "lexmode \<times> token list \<Rightarrow> codeUnit \<Rightarrow> (lexmode \<times> token list) option" where
  "lexStep st c =
     (case st of
        (LIdle, acc) \<Rightarrow> lexIdle acc c
      | (LWord w, acc) \<Rightarrow>
          if isWordChar c then Some (LWord (w @ [c]), acc)
          else (case wordToken w of None \<Rightarrow> None | Some t \<Rightarrow> lexIdle (acc @ [t]) c)
      | (LString s, acc) \<Rightarrow>
          if c = 0x22 then Some (LIdle, acc @ [TString s])
          else if c = 0x5C then Some (LEscape s, acc)
          else if c < 0x20 then None
          else Some (LString (s @ [c]), acc)
      | (LEscape s, acc) \<Rightarrow>
          if c = 0x22 \<or> c = 0x5C \<or> c = of_char CHR ''/'' then Some (LString (s @ [c]), acc)
          else if c = of_char CHR ''b'' then Some (LString (s @ [0x08]), acc)
          else if c = of_char CHR ''f'' then Some (LString (s @ [0x0C]), acc)
          else if c = of_char CHR ''n'' then Some (LString (s @ [0x0A]), acc)
          else if c = of_char CHR ''r'' then Some (LString (s @ [0x0D]), acc)
          else if c = of_char CHR ''t'' then Some (LString (s @ [0x09]), acc)
          else if c = of_char CHR ''u'' then Some (LUnicode s [], acc)
          else None
      | (LUnicode s hs, acc) \<Rightarrow>
          if isDigitOf 16 c
          then (if length hs = 3 then Some (LString (s @ [digitsValue 16 (hs @ [c])]), acc)
                else Some (LUnicode s (hs @ [c]), acc))
          else None)"

fun lexRun :: "lexmode \<times> token list \<Rightarrow> utf16 \<Rightarrow> token list option" where
  "lexRun st [] =
     (case st of
        (LIdle, acc) \<Rightarrow> Some acc
      | (LWord w, acc) \<Rightarrow> (case wordToken w of None \<Rightarrow> None | Some t \<Rightarrow> Some (acc @ [t]))
      | _ \<Rightarrow> None)"
| "lexRun st (c # cs) = (case lexStep st c of None \<Rightarrow> None | Some st' \<Rightarrow> lexRun st' cs)"

datatype frame =
  ArrayFrame "json list" | ObjectFrame "(utf16 \<times> json) list" | MemberFrame "(utf16 \<times> json) list" utf16

datatype pmode = PValue | PArrayStart | PObjectStart | PKey | PColon | PAfter | PDone json

fun reduce :: "json \<Rightarrow> frame list \<Rightarrow> (pmode \<times> frame list) option" where
  "reduce v [] = Some (PDone v, [])"
| "reduce v (ArrayFrame xs # st) = Some (PAfter, ArrayFrame (xs @ [v]) # st)"
| "reduce v (MemberFrame ps k # st) = Some (PAfter, ObjectFrame (defineProperty k v ps) # st)"
| "reduce v (ObjectFrame ps # st) = None"

definition startValue :: "frame list \<Rightarrow> token \<Rightarrow> (pmode \<times> frame list) option" where
  "startValue st t =
     (case t of
        TString s \<Rightarrow> reduce (JStr s) st
      | TNumber n \<Rightarrow> reduce (JNum n) st
      | TTrue \<Rightarrow> reduce (JBool True) st
      | TFalse \<Rightarrow> reduce (JBool False) st
      | TNull \<Rightarrow> reduce JNull st
      | TLBracket \<Rightarrow> Some (PArrayStart, ArrayFrame [] # st)
      | TLBrace \<Rightarrow> Some (PObjectStart, ObjectFrame [] # st)
      | _ \<Rightarrow> None)"

definition closeArray :: "frame list \<Rightarrow> (pmode \<times> frame list) option" where
  "closeArray st = (case st of ArrayFrame xs # st' \<Rightarrow> reduce (JArr xs) st' | _ \<Rightarrow> None)"

definition closeObject :: "frame list \<Rightarrow> (pmode \<times> frame list) option" where
  "closeObject st = (case st of ObjectFrame ps # st' \<Rightarrow> reduce (JObj ps) st' | _ \<Rightarrow> None)"

definition startMember :: "frame list \<Rightarrow> token \<Rightarrow> (pmode \<times> frame list) option" where
  "startMember st t =
     (case (t, st) of
        (TString k, ObjectFrame ps # st') \<Rightarrow> Some (PColon, MemberFrame ps k # st')
      | _ \<Rightarrow> None)"

definition parseStep :: "pmode \<times> frame list \<Rightarrow> token \<Rightarrow> (pmode \<times> frame list) option" where
  "parseStep pst t =
     (case pst of
        (PValue, st) \<Rightarrow> startValue st t
      | (PArrayStart, st) \<Rightarrow> if t = TRBracket then closeArray st else startValue st t
      | (PObjectStart, st) \<Rightarrow> if t = TRBrace then closeObject st else startMember st t
      | (PKey, st) \<Rightarrow> startMember st t
      | (PColon, st) \<Rightarrow> if t = TColon then Some (PValue, st) else None
      | (PAfter, st) \<Rightarrow>
          if t = TComma
          then (case st of
                  ArrayFrame xs # st' \<Rightarrow> Some (PValue, st)
                | ObjectFrame ps # st' \<Rightarrow> Some (PKey, st)
                | _ \<Rightarrow> None)
          else if t = TRBracket then closeArray st
          else if t = TRBrace then closeObject st
          else None
      | (PDone v, st) \<Rightarrow> None)"

fun parseRun :: "pmode \<times> frame list \<Rightarrow> token list \<Rightarrow> json option" where
  "parseRun pst [] = (case pst of (PDone v, []) \<Rightarrow> Some v | _ \<Rightarrow> None)"
| "parseRun pst (t # ts) = (case parseStep pst t of None \<Rightarrow> None | Some pst' \<Rightarrow> parseRun pst' ts)"

definition JSON_parse :: "utf16 \<Rightarrow> json option" where
  "JSON_parse text =
     (case lexRun (LIdle, []) text of None \<Rightarrow> None | Some ts \<Rightarrow> parseRun (PValue, []) ts)"

subsection \<open>\<^verbatim>\<open>JSON.stringify\<close>\<close>

definition hex4 :: "int \<Rightarrow> utf16" where
  "hex4 n = (let ds = radixString 16 n in replicate (4 - length ds) (of_char CHR ''0'') @ ds)"

text \<open>
  QuoteJSONString walks the code points of the string: a surrogate pair is copied, a
  surrogate without its partner is written as a \<^verbatim>\<open>\u\<close> escape, like a control character
  that has no short escape.
\<close>

definition isLeadingSurrogate :: "codeUnit \<Rightarrow> bool" where
  "isLeadingSurrogate c = (0xD800 \<le> c \<and> c \<le> 0xDBFF)"

definition isTrailingSurrogate :: "codeUnit \<Rightarrow> bool" where
  "isTrailingSurrogate c = (0xDC00 \<le> c \<and> c \<le> 0xDFFF)"

definition unicodeEscape :: "codeUnit \<Rightarrow> utf16" where
  "unicodeEscape c = [0x5C, of_char CHR ''u''] @ hex4 c"

definition quoteCodeUnit :: "codeUnit \<Rightarrow> utf16" where
  "quoteCodeUnit c =
     (if c = 0x22 then [0x5C, 0x22]
      else if c = 0x5C then [0x5C, 0x5C]
      else if c = 0x08 then [0x5C, of_char CHR ''b'']
      else if c = 0x0C then [0x5C, of_char CHR ''f'']
      else if c = 0x0A then [0x5C, of_char CHR ''n'']
      else if c = 0x0D then [0x5C, of_char CHR ''r'']
      else if c = 0x09 then [0x5C, of_char CHR ''t'']
      else if c < 0x20 \<or> isLeadingSurrogate c \<or> isTrailingSurrogate c then unicodeEscape c
      else [c])"

fun quoteCodePoints :: "utf16 \<Rightarrow> utf16" where
  "quoteCodePoints (c # d # rest) =
     (if isLeadingSurrogate c \<and> isTrailingSurrogate d then c # d # quoteCodePoints rest
      else quoteCodeUnit c @ quoteCodePoints (d # rest))"
| "quoteCodePoints [c] = quoteCodeUnit c"
| "quoteCodePoints [] = []"

definition quoteJSONString :: "utf16 \<Rightarrow> utf16" where
  "quoteJSONString s = [0x22] @ quoteCodePoints s @ [0x22]"

fun commaSeparated :: "utf16 list \<Rightarrow> utf16" where
  "commaSeparated [] = []"
| "commaSeparated [x] = x"
| "commaSeparated (x # y # ys) = x @ str '','' @ commaSeparated (y # ys)"

fun JSON_stringify :: "platform \<Rightarrow> json \<Rightarrow> utf16" where
  "JSON_stringify P JNull = str ''null''"
| "JSON_stringify P (JBool b) = (if b then str ''true'' else str ''false'')"
| "JSON_stringify P (JNum n) =
     (case n of Fin r \<Rightarrow> Number_toString P n | _ \<Rightarrow> str ''null'')"
| "JSON_stringify P (JStr s) = quoteJSONString s"
| "JSON_stringify P (JArr xs) = str ''['' @ commaSeparated (map (JSON_stringify P) xs) @ str '']''"
| "JSON_stringify P (JObj ps) =
     str ''{'' @ commaSeparated (map (\<lambda>kv. quoteJSONString (fst kv) @ str '':'' @ JSON_stringify P (snd kv)) ps)
       @ str ''}''"

section \<open>The parser (\<^verbatim>\<open>parse.ts\<close>)\<close>

text \<open>
  The options \<^verbatim>\<open>maxFileSize\<close> and \<^verbatim>\<open>maxNestingDepth\<close> are taken to be integers.  A function
  that throws returns \<open>Inl\<close> of the error it throws.
\<close>

definition DEFAULT_MAX_FILE_SIZE :: int where
  "DEFAULT_MAX_FILE_SIZE = 5 * 1024 * 1024"

definition DEFAULT_MAX_NESTING_DEPTH :: int where
  "DEFAULT_MAX_NESTING_DEPTH = 1"

text \<open>
  \<^verbatim>\<open>new TextEncoder().encode(input).length\<close>: the bytes of the UTF-8 encoding.  A surrogate
  pair is one code point of four bytes; a surrogate without its partner is encoded as the
  replacement character \<open>0xFFFD\<close>, three bytes like every other code unit from \<open>0x800\<close> on.
\<close>

definition utf8Bytes :: "codeUnit \<Rightarrow> int" where
  "utf8Bytes c = (if c < 0x80 then 1 else if c < 0x800 then 2 else 3)"

fun utf8Length :: "utf16 \<Rightarrow> int" where
  "utf8Length (c # d # rest) =
     (if isLeadingSurrogate c \<and> isTrailingSurrogate d then 4 + utf8Length rest
      else utf8Bytes c + utf8Length (d # rest))"
| "utf8Length [c] = utf8Bytes c"
| "utf8Length [] = 0"

definition intString :: "int \<Rightarrow> utf16" where
  "intString n = (if n < 0 then str ''-'' else []) @ radixString 10 \<bar>n\<bar>"

text \<open>The three failures of the loop over the records, with the texts of their template strings.\<close>

definition invalidRecord :: "nat \<Rightarrow> DataValidatorError" where
  "invalidRecord i =
     ParseError (str ''Invalid record at index '' @ intString (int i) @ str '': expected a flat object'')"

definition nestingTooDeep :: "nat \<Rightarrow> utf16 \<Rightarrow> int \<Rightarrow> DataValidatorError" where
  "nestingTooDeep recordIndex k maxDepth =
     ParseError
       (str ''Unsupported structure: deeply nested object at record '' @ intString (int recordIndex)
        @ str '', key '' @ [0x22] @ k @ [0x22]
        @ str ''. Maximum nesting depth is '' @ intString maxDepth)"

definition arrayValue :: "nat \<Rightarrow> utf16 \<Rightarrow> DataValidatorError" where
  "arrayValue recordIndex k =
     ParseError
       (str ''Unsupported structure: array value at record '' @ intString (int recordIndex)
        @ str '', key '' @ [0x22] @ k @ [0x22] @ str ''. Only flat objects are supported'')"

fun validateNesting :: "(utf16 \<times> json) list \<Rightarrow> nat \<Rightarrow> int \<Rightarrow> nat \<Rightarrow> DataValidatorError + unit" where
  "validateNesting [] recordIndex maxDepth currentDepth = Inr ()"
| "validateNesting ((k, v) # rest) recordIndex maxDepth currentDepth =
     (case v of
        JObj obj \<Rightarrow>
          if maxDepth \<le> int currentDepth
          then Inl (nestingTooDeep recordIndex k maxDepth)
          else (case validateNesting obj recordIndex maxDepth (currentDepth + 1) of
                  Inl e \<Rightarrow> Inl e
                | Inr _ \<Rightarrow> validateNesting rest recordIndex maxDepth currentDepth)
      | JArr xs \<Rightarrow> Inl (arrayValue recordIndex k)
      | _ \<Rightarrow> validateNesting rest recordIndex maxDepth currentDepth)"

text \<open>The loop of \<^verbatim>\<open>parse\<close> over the records, from index \<open>i\<close> on.\<close>

fun checkRecords :: "json list \<Rightarrow> nat \<Rightarrow> int \<Rightarrow> DataValidatorError + unit" where
  "checkRecords [] i maxDepth = Inr ()"
| "checkRecords (record # rest) i maxDepth =
     (case record of
        JObj obj \<Rightarrow>
          (case validateNesting obj i maxDepth 0 of
             Inl e \<Rightarrow> Inl e
           | Inr _ \<Rightarrow> checkRecords rest (Suc i) maxDepth)
      | _ \<Rightarrow> Inl (invalidRecord i))"

subsection \<open>Type inference\<close>

text \<open>
  The three date patterns are written as shapes: \<open>d\<close> stands for a digit, any other
  character for itself.  Normalisation removes the space before a trailing time-zone
  offset (\<^verbatim>\<open>/(\d) ([+-]\d{2}:\d{2})$/\<close>).
\<close>

fun matchesPrefix :: "utf16 \<Rightarrow> utf16 \<Rightarrow> bool" where
  "matchesPrefix [] s = True"
| "matchesPrefix (p # ps) [] = False"
| "matchesPrefix (p # ps) (c # cs) =
     ((if p = of_char CHR ''d'' then isDigit c else c = p) \<and> matchesPrefix ps cs)"

definition matchesAll :: "utf16 \<Rightarrow> utf16 \<Rightarrow> bool" where
  "matchesAll shape s = (length s = length shape \<and> matchesPrefix shape s)"

definition normalizeOffset :: "utf16 \<Rightarrow> utf16" where
  "normalizeOffset s =
     (let n = length s; t = drop (n - 8) s
      in if 8 \<le> n \<and> isDigit (t ! 0) \<and> t ! 1 = of_char CHR '' ''
            \<and> (t ! 2 = of_char CHR ''+'' \<or> t ! 2 = of_char CHR ''-'') \<and> matchesAll (str ''dd:dd'') (drop 3 t)
         then take (n - 7) s @ drop (n - 6) s
         else s)"

definition isDateString :: "platform \<Rightarrow> utf16 \<Rightarrow> bool" where
  "isDateString P s =
     (if \<not> (matchesAll (str ''dddd-dd-dd'') s \<or> matchesPrefix (str ''dddd-dd-ddTdd:dd:dd'') s
             \<or> matchesAll (str ''dd/dd/dddd'') s)
      then False
      else Date_valid P (normalizeOffset s))"

definition detectValueType :: "platform \<Rightarrow> json lookup \<Rightarrow> CellType" where
  "detectValueType P v =
     (case v of
        Own (JBool b) \<Rightarrow> BOOLEAN
      | Own (JNum n) \<Rightarrow> NUMBER
      | Own (JStr s) \<Rightarrow> if isDateString P s then DATE else STRING
      | _ \<Rightarrow> STRING)"

text \<open>
  \<^verbatim>\<open>typeCounts\<close> is an object keyed by the four type names; none of them is an array
  index, so its entries are in the order in which the types were first counted.
\<close>

definition countType :: "CellType \<Rightarrow> (CellType \<times> nat) list \<Rightarrow> (CellType \<times> nat) list" where
  "countType t typeCounts =
     (case map_of typeCounts t of
        None \<Rightarrow> typeCounts @ [(t, 1)]
      | Some n \<Rightarrow> map (\<lambda>(t', n'). if t' = t then (t', n' + 1) else (t', n')) typeCounts)"

fun countTypes ::
  "platform \<Rightarrow> (utf16 \<times> json) list list \<Rightarrow> utf16 \<Rightarrow> (CellType \<times> nat) list
     \<Rightarrow> (CellType \<times> nat) list" where
  "countTypes P [] k typeCounts = typeCounts"
| "countTypes P (record # rest) k typeCounts =
     (let v = getProperty record k
      in if v = Own JNull \<or> v = Absent then countTypes P rest k typeCounts
         else countTypes P rest k (countType (detectValueType P v) typeCounts))"

fun pickBest :: "(CellType \<times> nat) list \<Rightarrow> CellType \<Rightarrow> nat \<Rightarrow> CellType" where
  "pickBest [] bestType bestCount = bestType"
| "pickBest ((t, n) # rest) bestType bestCount =
     (if bestCount < n then pickBest rest t n else pickBest rest bestType bestCount)"

definition inferColumnType :: "platform \<Rightarrow> (utf16 \<times> json) list list \<Rightarrow> utf16 \<Rightarrow> CellType" where
  "inferColumnType P records k = pickBest (countTypes P records k []) STRING 0"

subsection \<open>Labels, cells and row ids\<close>

definition toUpperChar :: "codeUnit \<Rightarrow> codeUnit" where
  "toUpperChar c = (if isLower c then c - 32 else c)"

definition isWord :: "codeUnit \<Rightarrow> bool" where
  "isWord c = (isDigit c \<or> isLower c \<or> isUpper c \<or> c = of_char CHR ''_'')"

fun splitCamel :: "utf16 \<Rightarrow> utf16" where
  "splitCamel (a # b # rest) =
     (if isLower a \<and> isUpper b then a # of_char CHR '' '' # b # splitCamel rest
      else a # splitCamel (b # rest))"
| "splitCamel s = s"

fun capitalizeWords :: "bool \<Rightarrow> utf16 \<Rightarrow> utf16" where
  "capitalizeWords inWord [] = []"
| "capitalizeWords inWord (c # cs) =
     (if isWord c \<and> \<not> inWord then toUpperChar c else c) # capitalizeWords (isWord c) cs"

definition formatLabel :: "utf16 \<Rightarrow> utf16" where
  "formatLabel k =
     capitalizeWords False
       (map (\<lambda>c. if c = of_char CHR ''_'' \<or> c = of_char CHR ''-'' then of_char CHR '' '' else c) (splitCamel k))"

definition coerceValue :: "platform \<Rightarrow> json lookup \<Rightarrow> CellValue" where
  "coerceValue P v =
     (case v of
        Own JNull \<Rightarrow> VNull
      | Absent \<Rightarrow> VNull
      | Own (JStr s) \<Rightarrow> VStr s
      | Own (JNum n) \<Rightarrow> VNum n
      | Own (JBool b) \<Rightarrow> VBool b
      | Own j \<Rightarrow> VStr (JSON_stringify P j)
      | PrototypeObject \<Rightarrow> VStr (str ''{}'')
      | InheritedFunction f \<Rightarrow> VStr (Function_toString P f))"

text \<open>
  \<^verbatim>\<open>cells[k] = v\<close> on the cells under construction (see \<open>object\<close>); \<^verbatim>\<open>coerceValue\<close> returns
  null or a primitive, never an object.
\<close>

definition assignCell :: "utf16 \<Rightarrow> CellValue \<Rightarrow> CellValue object \<Rightarrow> CellValue object" where
  "assignCell k v obj =
     (if k = str ''__proto__'' \<and> map_of (props obj) k = None \<and> proto obj = ObjectPrototype
      then (if v = VNull then obj\<lparr>proto := NullPrototype\<rparr> else obj)
      else obj\<lparr>props := defineProperty k v (props obj)\<rparr>)"

fun buildCells_loop ::
  "platform \<Rightarrow> (utf16 \<times> json) list \<Rightarrow> Column list \<Rightarrow> CellValue object \<Rightarrow> CellValue object" where
  "buildCells_loop P record [] cs = cs"
| "buildCells_loop P record (c # rest) cs =
     buildCells_loop P record rest (assignCell (key c) (coerceValue P (getProperty record (key c))) cs)"

definition buildCells :: "platform \<Rightarrow> (utf16 \<times> json) list \<Rightarrow> Column list \<Rightarrow> CellValue object" where
  "buildCells P record cols = buildCells_loop P record cols emptyObject"

text \<open>\<^verbatim>\<open>generateRowId\<close>, given the value of \<^verbatim>\<open>rowIdCounter\<close> after its increment.\<close>

definition generateRowId :: "platform \<Rightarrow> nat \<Rightarrow> nat \<Rightarrow> utf16" where
  "generateRowId P index rowIdCounter =
     str ''row-'' @ intString (int index) @ str ''-'' @ intString (int rowIdCounter) @ str ''-''
       @ radixString 36 (Date_now P rowIdCounter)"

fun buildRows ::
  "platform \<Rightarrow> (utf16 \<times> json) list list \<Rightarrow> Column list \<Rightarrow> nat \<Rightarrow> nat \<Rightarrow> Row list" where
  "buildRows P [] cols index rowIdCounter = []"
| "buildRows P (record # rest) cols index rowIdCounter =
     \<lparr>row_id = generateRowId P index (Suc rowIdCounter),
      cells = buildCells P record cols,
      errors = []\<rparr>
     # buildRows P rest cols (Suc index) (Suc rowIdCounter)"

subsection \<open>\<^verbatim>\<open>parse\<close>\<close>

definition recordProps :: "json \<Rightarrow> (utf16 \<times> json) list" where
  "recordProps r = (case r of JObj ps \<Rightarrow> ps | _ \<Rightarrow> [])"

text \<open>
  \<open>parse P rowIdCounter input options\<close> returns the error thrown, or the DataSet together
  with the new value of the module's \<^verbatim>\<open>rowIdCounter\<close>.
\<close>

definition no_options :: ParseOptions where
  "no_options = \<lparr>maxFileSize = None, maxNestingDepth = None, fileName = None\<rparr>"

definition parse ::
  "platform \<Rightarrow> nat \<Rightarrow> utf16 \<Rightarrow> ParseOptions \<Rightarrow> DataValidatorError + DataSet \<times> nat" where
  "parse P rowIdCounter input options =
     (let maxFileSize' = (case maxFileSize options of None \<Rightarrow> DEFAULT_MAX_FILE_SIZE | Some m \<Rightarrow> m);
          maxNestingDepth' =
            (case maxNestingDepth options of None \<Rightarrow> DEFAULT_MAX_NESTING_DEPTH | Some d \<Rightarrow> d);
          fileName' = (case fileName options of None \<Rightarrow> str ''unknown'' | Some f \<Rightarrow> f);
          byteSize = utf8Length input
      in if maxFileSize' < byteSize then Inl (FileSizeError byteSize maxFileSize')
         else if length (trim input) = 0 then Inl (ParseError (str ''File is empty''))
         else case JSON_parse input of
           None \<Rightarrow> Inl (ParseError (str ''Invalid JSON: file could not be parsed''))
         | Some parsed \<Rightarrow>
             (case parsed of
                JArr records \<Rightarrow>
                  if length records = 0
                  then Inl (ParseError (str ''Empty dataset: the JSON array contains no records''))
                  else
                    (case checkRecords records 0 maxNestingDepth' of
                       Inl e \<Rightarrow> Inl e
                     | Inr _ \<Rightarrow>
                         (let recs = map recordProps records;
                              columnKeys = map fst (hd recs)
                          in if length columnKeys = 0
                             then Inl (ParseError (str ''No columns found: the first record has no keys''))
                             else
                               (let cols = map (\<lambda>k. \<lparr>key = k, label = formatLabel k,
                                                       type = inferColumnType P recs k,
                                                       validation = None\<rparr>) columnKeys;
                                    rws = buildRows P recs cols 0 rowIdCounter;
                                    rowIdCounter' = rowIdCounter + length rws
                                in Inr (\<lparr>columns = cols, rows = rws,
                                         metadata = \<lparr>meta_fileName = fileName',
                                                      rowCount = length rws,
                                                      columnCount = length cols,
                                                      importedAt = Date_toISOString P rowIdCounter'\<rparr>\<rparr>,
                                        rowIdCounter'))))
              | _ \<Rightarrow> Inl (ParseError (str ''Unsupported structure: expected a JSON array of objects''))))"

section \<open>The store (\<^verbatim>\<open>DataStore\<close>)\<close>

subsection \<open>Object identity\<close>

text \<open>
  The store promises reference stability, so the objects reachable from its state carry
  their heap address: \<open>At a x\<close> is the object \<open>x\<close> allocated at address \<open>a\<close>, and two
  references are the same object exactly when their addresses are equal.  Addresses are
  handed out from the counter \<open>nextAddress\<close> of the store, one per array or object that a
  method builds and keeps in the state.  None of these objects is mutated after it has
  been stored, so an address determines its content.
\<close>

datatype 'a ref = At (address: nat) (deref: 'a)

record StoredDataSet =
  columnsRef :: "Column list ref"
  rowsRef :: "Row ref list ref"
  metadataRef :: "DataSetMetadata ref"

datatype DataStoreState = Idle | Loading | Loaded StoredDataSet | Error DataValidatorError

record DataStoreOptions =
  store_maxFileSize :: "int option"
  store_maxNestingDepth :: "int option"
  store_validationRules :: "ValidationRule list props option"

record RequiredOptions =
  req_maxFileSize :: int
  req_maxNestingDepth :: int
  validationRules :: "ValidationRule list props"

text \<open>
  A store: the fields of the class, then the surroundings it acts on.  A subscriber is
  named by a number and does nothing but record that it was called (\<open>notified\<close> lists the
  calls in order); \<open>rowIdCounter\<close> is the module variable of \<^verbatim>\<open>parse.ts\<close>.
\<close>

record DataStore =
  state :: DataStoreState
  subscribers :: "nat list"
  options :: RequiredOptions
  notified :: "nat list"
  nextAddress :: nat
  rowIdCounter :: nat

definition new_DataStore :: "DataStoreOptions \<Rightarrow> DataStore" where
  "new_DataStore opts =
     \<lparr>state = Idle,
      subscribers = [],
      options =
        \<lparr>req_maxFileSize = (case store_maxFileSize opts of None \<Rightarrow> 5 * 1024 * 1024 | Some m \<Rightarrow> m),
         req_maxNestingDepth = (case store_maxNestingDepth opts of None \<Rightarrow> 1 | Some d \<Rightarrow> d),
         validationRules = (case store_validationRules opts of None \<Rightarrow> [] | Some rs \<Rightarrow> rs)\<rparr>,
      notified = [],
      nextAddress = 0,
      rowIdCounter = 0\<rparr>"

subsection \<open>Subscriptions and state replacement\<close>

definition subscribe :: "nat \<Rightarrow> DataStore \<Rightarrow> DataStore" where
  "subscribe f s = (if f \<in> set (subscribers s) then s else s\<lparr>subscribers := subscribers s @ [f]\<rparr>)"

definition unsubscribe :: "nat \<Rightarrow> DataStore \<Rightarrow> DataStore" where
  "unsubscribe f s = s\<lparr>subscribers := filter (\<lambda>g. g \<noteq> f) (subscribers s)\<rparr>"

definition notify :: "DataStore \<Rightarrow> DataStore" where
  "notify s = s\<lparr>notified := notified s @ subscribers s\<rparr>"

definition setState :: "DataStoreState \<Rightarrow> DataStore \<Rightarrow> DataStore" where
  "setState newState s = notify (s\<lparr>state := newState\<rparr>)"

subsection \<open>Merging the store's rules into the columns\<close>

text \<open>The callback of \<^verbatim>\<open>columns.map\<close> in \<^verbatim>\<open>applyValidationRules\<close>, then the map itself.\<close>

definition withRules :: "platform \<Rightarrow> RequiredOptions \<Rightarrow> Column \<Rightarrow> thrown + Column" where
  "withRules P opts c =
     (case getProperty (validationRules opts) (key c) of
        Absent \<Rightarrow> Inr c
      | Own rules \<Rightarrow>
          Inr (c\<lparr>validation := Some ((case validation c of None \<Rightarrow> [] | Some rs \<Rightarrow> rs) @ rules)\<rparr>)
      | _ \<Rightarrow> Inl (TypeError (not_iterable P (str ''rules''))))"

fun applyValidationRules ::
  "platform \<Rightarrow> RequiredOptions \<Rightarrow> Column list \<Rightarrow> thrown + Column list" where
  "applyValidationRules P opts [] = Inr []"
| "applyValidationRules P opts (c # cs) =
     (case withRules P opts c of
        Inl e \<Rightarrow> Inl e
      | Inr c' \<Rightarrow>
          (case applyValidationRules P opts cs of
             Inl e \<Rightarrow> Inl e
           | Inr cs' \<Rightarrow> Inr (c' # cs')))"

subsection \<open>Loading\<close>

definition caught :: "thrown \<Rightarrow> DataValidatorError" where
  "caught e =
     (case e of
        Failure d \<Rightarrow> d
      | TypeError m \<Rightarrow> new_DataValidatorError (str ''UNKNOWN_ERROR'') m
      | SyntaxError m \<Rightarrow> new_DataValidatorError (str ''UNKNOWN_ERROR'') m)"

text \<open>Fresh addresses for a list of new objects, starting at \<open>a\<close>.\<close>

fun allocate :: "nat \<Rightarrow> 'a list \<Rightarrow> 'a ref list" where
  "allocate a [] = []"
| "allocate a (x # xs) = At a x # allocate (Suc a) xs"

definition loadFromString :: "platform \<Rightarrow> utf16 \<Rightarrow> utf16 option \<Rightarrow> DataStore \<Rightarrow> DataStore" where
  "loadFromString P jsonString name' s =
     (let s1 = setState Loading s
      in case parse P (rowIdCounter s1) jsonString
                \<lparr>maxFileSize = Some (req_maxFileSize (options s1)),
                 maxNestingDepth = Some (req_maxNestingDepth (options s1)),
                 fileName = Some (case name' of None \<Rightarrow> str ''unknown'' | Some f \<Rightarrow> f)\<rparr> of
           Inl e \<Rightarrow> setState (Error e) s1
         | Inr (dataSet, counter) \<Rightarrow>
             (let s2 = s1\<lparr>rowIdCounter := counter\<rparr>
              in case applyValidationRules P (options s2) (columns dataSet) of
                   Inl e \<Rightarrow> setState (Error (caught e)) s2
                 | Inr columnsWithRules \<Rightarrow>
                     (case validateAllRows P (rows dataSet) columnsWithRules of
                        Inl e \<Rightarrow> setState (Error (caught e)) s2
                      | Inr validatedRows \<Rightarrow>
                          (let a = nextAddress s2
                           in setState
                                (Loaded
                                   \<lparr>columnsRef = At (a + 1) columnsWithRules,
                                    rowsRef = At (a + 2) (allocate (a + 3) validatedRows),
                                    metadataRef = At a (metadata dataSet)\<rparr>)
                                (s2\<lparr>nextAddress := a + 3 + length validatedRows\<rparr>)))))"

text \<open>
  \<^verbatim>\<open>loadFromFile\<close>: a file has a size, a name and a text that can be read or whose reading
  fails (with the message of the error, if it is one).  The suspension at \<^verbatim>\<open>await\<close> is not
  modelled: no other call runs in between.
\<close>

record File =
  file_size :: int
  file_name :: utf16
  file_text :: "utf16 option + utf16"

definition loadFromFile :: "platform \<Rightarrow> File \<Rightarrow> DataStore \<Rightarrow> DataStore" where
  "loadFromFile P file s =
     (let s1 = setState Loading s
      in if req_maxFileSize (options s1) < file_size file
         then setState (Error (FileSizeError (file_size file) (req_maxFileSize (options s1)))) s1
         else case file_text file of
                Inr text \<Rightarrow> loadFromString P text (Some (file_name file)) s1
              | Inl m \<Rightarrow>
                  setState
                    (Error (new_DataValidatorError (str ''FILE_READ_ERROR'')
                              (case m of Some msg \<Rightarrow> msg | None \<Rightarrow> str ''Failed to read file'')))
                    s1)"

subsection \<open>Editing\<close>

fun findIndex :: "('a \<Rightarrow> bool) \<Rightarrow> 'a list \<Rightarrow> nat option" where
  "findIndex p [] = None"
| "findIndex p (x # xs) = (if p x then Some 0 else map_option Suc (findIndex p xs))"

text \<open>
  The row object that \<^verbatim>\<open>updateCell\<close> and \<^verbatim>\<open>batchUpdateCells\<close> build for an edit:
  \<^verbatim>\<open>{ ...row, cells: { ...row.cells, [columnKey]: value }, errors: newErrors }\<close>, where
  \<^verbatim>\<open>newErrors\<close> is a copy of \<^verbatim>\<open>row.errors\<close> with the key assigned or deleted.
\<close>

definition editRow :: "utf16 \<Rightarrow> CellValue \<Rightarrow> ValidationError list \<Rightarrow> Row \<Rightarrow> Row" where
  "editRow columnKey v cellErrors row =
     row\<lparr>cells := \<lparr>props = defineProperty columnKey v (props (cells row)), proto = ObjectPrototype\<rparr>,
         errors := (if 0 < length cellErrors then assignErrors columnKey cellErrors (errors row)
                    else deleteProperty columnKey (errors row))\<rparr>"

text \<open>
  A mutating method returns the store it leaves behind, together with the exception that
  escapes to its caller, if one does.
\<close>

definition updateCell ::
  "platform \<Rightarrow> utf16 \<Rightarrow> utf16 \<Rightarrow> CellValue \<Rightarrow> DataStore \<Rightarrow> thrown option \<times> DataStore" where
  "updateCell P rowId columnKey v s =
     (case state s of
        Loaded data \<Rightarrow>
          (case findIndex (\<lambda>r. row_id (deref r) = rowId) (deref (rowsRef data)) of
             None \<Rightarrow> (None, s)
           | Some rowIndex \<Rightarrow>
               (case find (\<lambda>c. key c = columnKey) (deref (columnsRef data)) of
                  None \<Rightarrow> (None, s)
                | Some col \<Rightarrow>
                    (let row = deref (deref (rowsRef data) ! rowIndex)
                     in case validateCell P v col of
                          Inl e \<Rightarrow> (Some e, s)
                        | Inr cellErrors \<Rightarrow>
                            (let a = nextAddress s;
                                 newRow = At a (editRow columnKey v cellErrors row);
                                 newRows = At (a + 1) ((deref (rowsRef data))[rowIndex := newRow])
                             in (None, setState (Loaded (data\<lparr>rowsRef := newRows\<rparr>))
                                         (s\<lparr>nextAddress := a + 2\<rparr>))))))
      | _ \<Rightarrow> (None, s))"

text \<open>\<^verbatim>\<open>rowIndexMap\<close>: each row id mapped to the index of the last row that carries it.\<close>

fun rowIndexMap :: "Row ref list \<Rightarrow> nat \<Rightarrow> (utf16 \<Rightarrow> nat option) \<Rightarrow> (utf16 \<Rightarrow> nat option)" where
  "rowIndexMap [] i m = m"
| "rowIndexMap (r # rs) i m = rowIndexMap rs (Suc i) (m(row_id (deref r) \<mapsto> i))"

text \<open>The loop over the edits: the working copy of the rows and the next free address.\<close>

fun batchLoop ::
  "platform \<Rightarrow> Column list \<Rightarrow> (utf16 \<Rightarrow> nat option) \<Rightarrow> CellEdit list \<Rightarrow> Row ref list \<Rightarrow> nat
     \<Rightarrow> thrown + Row ref list \<times> nat" where
  "batchLoop P cols m [] newRows a = Inr (newRows, a)"
| "batchLoop P cols m (e # es) newRows a =
     (case m (edit_rowId e) of
        None \<Rightarrow> batchLoop P cols m es newRows a
      | Some rowIndex \<Rightarrow>
          (case find (\<lambda>c. key c = edit_columnKey e) cols of
             None \<Rightarrow> batchLoop P cols m es newRows a
           | Some col \<Rightarrow>
               (case validateCell P (edit_value e) col of
                  Inl ex \<Rightarrow> Inl ex
                | Inr cellErrors \<Rightarrow>
                    batchLoop P cols m es
                      (newRows[rowIndex :=
                         At a (editRow (edit_columnKey e) (edit_value e) cellErrors
                                 (deref (newRows ! rowIndex)))])
                      (Suc a))))"

definition batchUpdateCells ::
  "platform \<Rightarrow> CellEdit list \<Rightarrow> DataStore \<Rightarrow> thrown option \<times> DataStore" where
  "batchUpdateCells P edits s =
     (case state s of
        Loaded data \<Rightarrow>
          (let a = nextAddress s
           in case batchLoop P (deref (columnsRef data))
                     (rowIndexMap (deref (rowsRef data)) 0 Map.empty) edits
                     (deref (rowsRef data)) (a + 1) of
                Inl e \<Rightarrow> (Some e, s)
              | Inr (newRows, a') \<Rightarrow>
                  (None, setState (Loaded (data\<lparr>rowsRef := At a newRows\<rparr>))
                           (s\<lparr>nextAddress := a'\<rparr>)))
      | _ \<Rightarrow> (None, s))"

definition addValidationRules ::
  "platform \<Rightarrow> utf16 \<Rightarrow> ValidationRule list \<Rightarrow> DataStore \<Rightarrow> thrown option \<times> DataStore" where
  "addValidationRules P columnKey rules s =
     (case (case getProperty (validationRules (options s)) columnKey of
              Own rs \<Rightarrow> Inr (rs @ rules)
            | Absent \<Rightarrow> Inr ([] @ rules)
            | _ \<Rightarrow> Inl (TypeError (not_iterable P (str ''(this.options.validationRules[columnKey] ?? [])'')))) of
        Inl e \<Rightarrow> (Some e, s)
      | Inr newRules \<Rightarrow>
          (let s1 = s\<lparr>options := (options s)
                       \<lparr>validationRules := defineProperty columnKey newRules (validationRules (options s))\<rparr>\<rparr>
           in case state s1 of
                Loaded data \<Rightarrow>
                  (case applyValidationRules P (options s1) (deref (columnsRef data)) of
                     Inl e \<Rightarrow> (Some e, s1)
                   | Inr columnsWithRules \<Rightarrow>
                       (case validateAllRows P (map deref (deref (rowsRef data))) columnsWithRules of
                          Inl e \<Rightarrow> (Some e, s1)
                        | Inr validatedRows \<Rightarrow>
                            (let a = nextAddress s1
                             in (None,
                                 setState
                                   (Loaded
                                      (data\<lparr>columnsRef := At a columnsWithRules,
                                            rowsRef := At (a + 1) (allocate (a + 2) validatedRows)\<rparr>))
                                   (s1\<lparr>nextAddress := a + 2 + length validatedRows\<rparr>)))))
              | _ \<Rightarrow> (None, s1)))"

definition reset :: "DataStore \<Rightarrow> DataStore" where
  "reset s = setState Idle s"

subsection \<open>Reading\<close>

text \<open>
  \<^verbatim>\<open>getData\<close> hands out the DataSet object of the state, so its arrays and rows come with
  their identities.
\<close>

definition getData :: "DataStore \<Rightarrow> StoredDataSet option" where
  "getData s = (case state s of Loaded data \<Rightarrow> Some data | _ \<Rightarrow> None)"

definition getRows :: "DataStore \<Rightarrow> Row ref list" where
  "getRows s = (case getData s of Some d \<Rightarrow> deref (rowsRef d) | None \<Rightarrow> [])"

definition getColumns :: "DataStore \<Rightarrow> Column list" where
  "getColumns s = (case getData s of Some d \<Rightarrow> deref (columnsRef d) | None \<Rightarrow> [])"

definition getRow :: "utf16 \<Rightarrow> DataStore \<Rightarrow> Row ref option" where
  "getRow rowId s = find (\<lambda>r. row_id (deref r) = rowId) (getRows s)"

definition getErrorCount :: "DataStore \<Rightarrow> nat" where
  "getErrorCount s = foldl (\<lambda>count row. count + length (errors (deref row))) 0 (getRows s)"

definition getRowsWithErrors :: "DataStore \<Rightarrow> Row ref list" where
  "getRowsWithErrors s = filter (\<lambda>row. 0 < length (errors (deref row))) (getRows s)"

definition exportData :: "DataStore \<Rightarrow> CellValue props list option" where
  "exportData s =
     map_option (\<lambda>d. map (\<lambda>row. props (cells (deref row))) (deref (rowsRef d))) (getData s)"

subsection \<open>Allocated addresses\<close>

text \<open>
  The addresses of the objects that a loaded state holds: the columns array, the rows
  array, the metadata object and every row object.  In a well-formed store all of them
  lie below \<open>nextAddress\<close>, so an address handed out later is new.
\<close>

definition addresses :: "StoredDataSet \<Rightarrow> nat list" where
  "addresses d =
     [address (columnsRef d), address (rowsRef d), address (metadataRef d)]
     @ map address (deref (rowsRef d))"

definition heap_ok :: "DataStore \<Rightarrow> bool" where
  "heap_ok s =
     (case state s of
        Loaded d \<Rightarrow> list_all (\<lambda>a. a < nextAddress s) (addresses d)
      | _ \<Rightarrow> True)"

subsection \<open>Reachable stores\<close>

text \<open>
  The stores that a program can hold: a new store, and what the public methods make of a
  reachable store (when a method throws, the store is what it had become by then).
\<close>

inductive reachable :: "platform \<Rightarrow> DataStore \<Rightarrow> bool" for P :: platform where
  reach_new: "reachable P (new_DataStore opts)"
| reach_subscribe: "reachable P s \<Longrightarrow> reachable P (subscribe f s)"
| reach_unsubscribe: "reachable P s \<Longrightarrow> reachable P (unsubscribe f s)"
| reach_loadFromString: "reachable P s \<Longrightarrow> reachable P (loadFromString P txt name' s)"
| reach_loadFromFile: "reachable P s \<Longrightarrow> reachable P (loadFromFile P file s)"
| reach_updateCell: "reachable P s \<Longrightarrow> reachable P (snd (updateCell P rowId columnKey v s))"
| reach_batchUpdateCells: "reachable P s \<Longrightarrow> reachable P (snd (batchUpdateCells P edits s))"
| reach_addValidationRules: "reachable P s \<Longrightarrow> reachable P (snd (addValidationRules P columnKey rules s))"
| reach_reset: "reachable P s \<Longrightarrow> reachable P (reset s)"

section \<open>The specification's words, for comparison with the code\<close>

text \<open>
  The definitions of this section are not taken from the source.  They put into HOL what
  the specification says, so that the theorems can compare it with what the code does.
\<close>

subsection \<open>Offending fields in traversal order\<close>

text \<open>
  All the fields of a record that break a structural rule, in the order of a depth-first
  walk in key order: an array value, or a plain object at a depth that has reached the
  limit (its inside is not visited).
\<close>

fun offences :: "(utf16 \<times> json) list \<Rightarrow> nat \<Rightarrow> int \<Rightarrow> nat \<Rightarrow> DataValidatorError list" where
  "offences [] recordIndex maxDepth depth = []"
| "offences ((k, v) # rest) recordIndex maxDepth depth =
     (case v of
        JObj obj \<Rightarrow>
          if maxDepth \<le> int depth then [nestingTooDeep recordIndex k maxDepth]
          else offences obj recordIndex maxDepth (depth + 1)
      | JArr xs \<Rightarrow> [arrayValue recordIndex k]
      | _ \<Rightarrow> [])
     @ offences rest recordIndex maxDepth depth"

text \<open>The same for a list of records, from index \<open>i\<close> on; nothing after an element that is not a plain object is visited.\<close>

fun recordOffences :: "json list \<Rightarrow> nat \<Rightarrow> int \<Rightarrow> DataValidatorError list" where
  "recordOffences [] i maxDepth = []"
| "recordOffences (record # rest) i maxDepth =
     (case record of
        JObj obj \<Rightarrow> offences obj i maxDepth 0 @ recordOffences rest (Suc i) maxDepth
      | _ \<Rightarrow> [invalidRecord i])"

subsection \<open>Classifications of a column\<close>

text \<open>The records of an input text: the elements of the array it denotes.\<close>

definition inputRecords :: "utf16 \<Rightarrow> (utf16 \<times> json) list list" where
  "inputRecords input =
     (case JSON_parse input of Some (JArr records) \<Rightarrow> map recordProps records | _ \<Rightarrow> [])"

text \<open>
  The values present under a key: the fields of that name that the records themselves
  have, without the null ones, in record order.
\<close>

definition presentValues :: "(utf16 \<times> json) list list \<Rightarrow> utf16 \<Rightarrow> json list" where
  "presentValues records k =
     filter (\<lambda>v. v \<noteq> JNull)
       (concat (map (\<lambda>record. case map_of record k of Some v \<Rightarrow> [v] | None \<Rightarrow> []) records))"

text \<open>
  The classification of a present value: boolean, number, date for a string that
  \<open>isDateString\<close> accepts, string for every other value.
\<close>

definition classify :: "platform \<Rightarrow> json \<Rightarrow> CellType" where
  "classify P v =
     (case v of
        JBool b \<Rightarrow> BOOLEAN
      | JNum n \<Rightarrow> NUMBER
      | JStr s \<Rightarrow> if isDateString P s then DATE else STRING
      | _ \<Rightarrow> STRING)"

definition classifications :: "platform \<Rightarrow> (utf16 \<times> json) list list \<Rightarrow> utf16 \<Rightarrow> CellType list" where
  "classifications P records k = map (classify P) (presentValues records k)"

text \<open>
  ``The first to reach the leading count'': the leading count is the highest number of
  occurrences of a classification; scanning the classifications in order, the first one
  whose running count attains it.
\<close>

definition leadingCount :: "CellType list \<Rightarrow> nat" where
  "leadingCount cs = foldr max (map (count_list cs) cs) 0"

fun firstToReach_scan :: "nat \<Rightarrow> CellType list \<Rightarrow> CellType list \<Rightarrow> CellType option" where
  "firstToReach_scan n seen [] = None"
| "firstToReach_scan n seen (c # cs) =
     (if count_list (c # seen) c = n then Some c else firstToReach_scan n (c # seen) cs)"

definition firstToReach :: "CellType list \<Rightarrow> CellType option" where
  "firstToReach cs = firstToReach_scan (leadingCount cs) [] cs"

subsection \<open>Type conformance\<close>

text \<open>
  When a value conforms to a column type: a number or a string that is not blank and
  converts to a number for a number column; a boolean or a string that equals one of six
  words when case is ignored for a boolean column; a string that the engine reads as a
  valid date for a date column; every value for a string column.
\<close>

definition equalIgnoringCase :: "platform \<Rightarrow> utf16 \<Rightarrow> utf16 \<Rightarrow> bool" where
  "equalIgnoringCase P s w = (toLowerCase P s = toLowerCase P w)"

definition booleanWords :: "utf16 list" where
  "booleanWords = [str ''true'', str ''false'', str ''yes'', str ''no'', str ''1'', str ''0'']"

fun conforms :: "platform \<Rightarrow> CellType \<Rightarrow> CellValue \<Rightarrow> bool" where
  "conforms P NUMBER (VNum x) = True"
| "conforms P NUMBER (VStr s) = (trim s \<noteq> [] \<and> Number s \<noteq> NaN)"
| "conforms P NUMBER v = False"
| "conforms P BOOLEAN (VBool b) = True"
| "conforms P BOOLEAN (VStr s) = list_ex (equalIgnoringCase P s) booleanWords"
| "conforms P BOOLEAN v = False"
| "conforms P DATE (VStr s) = Date_valid P s"
| "conforms P DATE v = False"
| "conforms P STRING v = True"

text \<open>The message of a type failure.\<close>

fun typeMessage :: "CellType \<Rightarrow> utf16" where
  "typeMessage NUMBER = EXPECTED_NUMBER"
| "typeMessage BOOLEAN = EXPECTED_BOOLEAN"
| "typeMessage DATE = EXPECTED_DATE"
| "typeMessage STRING = []"

subsection \<open>Notifications during a call\<close>

text \<open>How often the subscriber \<open>f\<close> was called between the store \<open>s\<close> and the later store \<open>s'\<close>.\<close>

definition calls :: "DataStore \<Rightarrow> DataStore \<Rightarrow> nat \<Rightarrow> nat" where
  "calls s s' f = count_list (drop (length (notified s)) (notified s')) f"

section \<open>An engine instance and sample data for closed evaluations\<close>

text \<open>
  The general theorems below hold for every platform.  Statements about one concrete run
  need one concrete engine; \<open>sample_engine\<close> is such an instance.  Its clock stands at 0.  It
  rejects the pattern \<^verbatim>\<open>(\<close> (an unterminated group, a SyntaxError in every ECMAScript
  engine) and words its messages and the texts of built-in functions as V8 does.  No
  concrete run below asks it for a date, for a match of a pattern, for a number that is not
  an integer or for the lower case of text beyond Latin-1.
\<close>

definition sample_engine :: platform where
  "sample_engine =
     \<lparr>Date_valid = (\<lambda>s. False),
      RegExp_new = (\<lambda>p. if p = str ''(''
                         then Inl (str ''Invalid regular expression: /(/: Unterminated group'')
                         else Inr (\<lambda>s. True)),
      Number_toString_other = (\<lambda>r. []),
      Function_toString = (\<lambda>f. str ''function '' @ f @ str ''() { [native code] }''),
      toLowerCase_Unicode = (\<lambda>s. s),
      not_iterable = (\<lambda>e. e @ str '' is not iterable''),
      Date_now = (\<lambda>k. 0),
      Date_toISOString = (\<lambda>k. str ''1970-01-01T00:00:00.000Z'')\<rparr>"

text \<open>Rules and stores used in the concrete runs.\<close>

definition min_0 :: ValidationRule where
  "min_0 = \<lparr>rule_type = MIN_VALUE, rule_value = Some (NumberValue (Fin 0)), rule_message = None\<rparr>"

definition max_10 :: ValidationRule where
  "max_10 = \<lparr>rule_type = MAX_VALUE, rule_value = Some (NumberValue (Fin 10)), rule_message = None\<rparr>"

definition bad_pattern :: ValidationRule where
  "bad_pattern = \<lparr>rule_type = PATTERN, rule_value = Some (StringValue (str ''('')), rule_message = None\<rparr>"

text \<open>\<^verbatim>\<open>new DataStore({ validationRules: rules })\<close> with one subscriber, number 7.\<close>

definition store_with :: "ValidationRule list props \<Rightarrow> DataStore" where
  "store_with rules =
     subscribe 7
       (new_DataStore \<lparr>store_maxFileSize = None, store_maxNestingDepth = None,
                        store_validationRules = Some rules\<rparr>)"

text \<open>
  The store of the README's quick start, built with the rule \<^verbatim>\<open>min 0\<close> for the column
  \<^verbatim>\<open>age\<close>, after loading one record with the age \<open>-1\<close>.
\<close>

definition ages_store :: DataStore where
  "ages_store =
     loadFromString sample_engine (str ''[{\"age\": -1}]'') None (store_with [(str ''age'', [min_0])])"

text \<open>A store without rules after loading two records.\<close>

definition two_rows_store :: DataStore where
  "two_rows_store =
     loadFromString sample_engine (str ''[{\"a\": 1}, {\"a\": 2}]'') None (store_with [])"

text \<open>A store with an ill-formed pattern for the column \<^verbatim>\<open>a\<close>, after loading a record whose \<^verbatim>\<open>a\<close> is a number.\<close>

definition bad_pattern_store :: DataStore where
  "bad_pattern_store =
     loadFromString sample_engine (str ''[{\"a\": 1}]'') None (store_with [(str ''a'', [bad_pattern])])"

text \<open>A store without rules after loading a record with a string field.\<close>

definition names_store :: DataStore where
  "names_store = loadFromString sample_engine (str ''[{\"name\": \"Alice\"}]'') None (store_with [])"

section \<open>Properties of the validator\<close>

lemma validateCell_prefix:
  "validateCell P v c = Inr es \<Longrightarrow> \<exists>rs. es = validateType P v (type c) (key c) @ rs"
  by (auto simp: validateCell_def Let_def split: option.splits sum.splits)

lemma toLowerCase_booleanWords:
  "w \<in> set booleanWords \<Longrightarrow> toLowerCase P w = w"
  by (auto simp: booleanWords_def toLowerCase_def isUpper_def)

lemma conforms_validateType:
  "validateType P v t k =
     (if v = VNull \<or> conforms P t v then []
      else [\<lparr>rule = REQUIRED, message = typeMessage t, column = k\<rparr>])"
proof (cases v)
  case (VStr s)
  have b: "(toLowerCase P s \<in> set booleanWords) = list_ex (equalIgnoringCase P s) booleanWords"
    by (auto simp: list_ex_iff equalIgnoringCase_def toLowerCase_booleanWords)
  have "set [str ''true'', str ''false'', str ''yes'', str ''no'', str ''1'', str ''0''] = set booleanWords"
    by (simp add: booleanWords_def)
  with b VStr show ?thesis
    by (cases t) (simp_all add: validateType_def isNaN_def del: set_simps)
qed (cases t; simp add: validateType_def)+

lemma validateRule_required:
  "rule_type r = REQUIRED \<Longrightarrow>
     validateRule P v r k =
       Inr (if v = VNull \<or> v = VStr []
            then Some \<lparr>rule = REQUIRED,
                        message = (case rule_message r of Some m \<Rightarrow> m | None \<Rightarrow> REQUIRED_MESSAGE),
                        column = k\<rparr>
            else None)"
  by (simp add: validateRule_def)

text \<open>
  Claim C10, as stated, fails in its last part: the message does not always tell a type
  failure from a failed \<^verbatim>\<open>required\<close> rule.  For the empty string in a number column whose
  \<^verbatim>\<open>required\<close> rule carries the custom message \<^verbatim>\<open>Expected a number value\<close>, the type check and
  the rule each report an error, and the two errors are equal field for field.
\<close>

theorem type_failure_and_required_failure_coincide:
  "validateType sample_engine (VStr []) NUMBER (str ''age'')
     = [\<lparr>rule = REQUIRED, message = str ''Expected a number value'', column = str ''age''\<rparr>]
   \<and> validateRule sample_engine (VStr [])
         \<lparr>rule_type = REQUIRED, rule_value = None, rule_message = Some (str ''Expected a number value'')\<rparr>
         (str ''age'')
     = Inr (Some \<lparr>rule = REQUIRED, message = str ''Expected a number value'', column = str ''age''\<rparr>)
   \<and> validateCell sample_engine (VStr [])
         \<lparr>key = str ''age'', label = str ''Age'', type = NUMBER,
          validation = Some [\<lparr>rule_type = REQUIRED, rule_value = None,
                               rule_message = Some (str ''Expected a number value'')\<rparr>]\<rparr>
     = Inr [\<lparr>rule = REQUIRED, message = str ''Expected a number value'', column = str ''age''\<rparr>,
            \<lparr>rule = REQUIRED, message = str ''Expected a number value'', column = str ''age''\<rparr>]"
  by code_simp

text \<open>
  Claim C10, amended.  Let \<open>v\<close> be a value that is not null and does not conform to the
  type of a number, boolean or date column \<open>c\<close> (\<open>conforms\<close> says what conforming means,
  without reference to the validator).  Then the list that \<^verbatim>\<open>validateCell\<close> returns starts
  with the error of kind \<open>REQUIRED\<close> that carries the message of the type and the key of
  the column, and it is the only error when the column has no rules.  A \<^verbatim>\<open>required\<close> rule
  fails exactly on null and on the empty string, with an error of the same kind and
  column whose message is the rule's custom message or else \<^verbatim>\<open>This field is required\<close>.
  So the two errors never differ in kind or column; they differ in the message when the
  rule has the default message, which is none of the three type messages, and they are
  equal when the custom message is the type message.
\<close>

theorem type_failure_is_tagged_required:
  assumes "v \<noteq> VNull" and "type c \<noteq> STRING" and "\<not> conforms P (type c) v"
    and "validateCell P v c = Inr es"
  shows "(\<exists>rest. es = \<lparr>rule = REQUIRED, message = typeMessage (type c), column = key c\<rparr> # rest)
    \<and> (validation c = None \<longrightarrow>
          es = [\<lparr>rule = REQUIRED, message = typeMessage (type c), column = key c\<rparr>])
    \<and> (\<forall>r w. rule_type r = REQUIRED \<longrightarrow>
          validateRule P w r (key c) =
            Inr (if w = VNull \<or> w = VStr []
                 then Some \<lparr>rule = REQUIRED,
                             message = (case rule_message r of Some m \<Rightarrow> m | None \<Rightarrow> REQUIRED_MESSAGE),
                             column = key c\<rparr>
                 else None))
    \<and> typeMessage (type c) \<noteq> REQUIRED_MESSAGE"
proof (intro conjI allI impI)
  have vt: "validateType P v (type c) (key c)
              = [\<lparr>rule = REQUIRED, message = typeMessage (type c), column = key c\<rparr>]"
    using assms(1,3) by (simp add: conforms_validateType)
  from validateCell_prefix[OF assms(4)] vt
  show "\<exists>rest. es = \<lparr>rule = REQUIRED, message = typeMessage (type c), column = key c\<rparr> # rest"
    by auto
  show "es = [\<lparr>rule = REQUIRED, message = typeMessage (type c), column = key c\<rparr>]"
    if "validation c = None"
    using that assms(4) vt by (simp add: validateCell_def)
  show "validateRule P w r (key c) =
            Inr (if w = VNull \<or> w = VStr []
                 then Some \<lparr>rule = REQUIRED,
                             message = (case rule_message r of Some m \<Rightarrow> m | None \<Rightarrow> REQUIRED_MESSAGE),
                             column = key c\<rparr>
                 else None)"
    if "rule_type r = REQUIRED" for r w
    using that by (rule validateRule_required)
  show "typeMessage (type c) \<noteq> REQUIRED_MESSAGE"
    using assms(2)
    by (cases "type c")
       (simp_all add: EXPECTED_NUMBER_def EXPECTED_BOOLEAN_def EXPECTED_DATE_def REQUIRED_MESSAGE_def)
qed

theorem type_failure_is_tagged_required_witness:
  "validateCell sample_engine (VStr (str ''x''))
       \<lparr>key = str ''age'', label = str ''Age'', type = NUMBER, validation = None\<rparr>
     = Inr [\<lparr>rule = REQUIRED, message = EXPECTED_NUMBER, column = str ''age''\<rparr>]
   \<and> validateCell sample_engine (VStr (str ''maybe''))
       \<lparr>key = str ''ok'', label = str ''Ok'', type = BOOLEAN, validation = None\<rparr>
     = Inr [\<lparr>rule = REQUIRED, message = EXPECTED_BOOLEAN, column = str ''ok''\<rparr>]
   \<and> validateCell sample_engine (VNum (Fin 5))
       \<lparr>key = str ''day'', label = str ''Day'', type = DATE, validation = None\<rparr>
     = Inr [\<lparr>rule = REQUIRED, message = EXPECTED_DATE, column = str ''day''\<rparr>]
   \<and> validateRule sample_engine VNull
       \<lparr>rule_type = REQUIRED, rule_value = None, rule_message = None\<rparr> (str ''age'')
     = Inr (Some \<lparr>rule = REQUIRED, message = REQUIRED_MESSAGE, column = str ''age''\<rparr>)
   \<and> EXPECTED_NUMBER \<noteq> REQUIRED_MESSAGE"
proof -
  let ?n = "\<lparr>key = str ''age'', label = str ''Age'', type = NUMBER, validation = None\<rparr>"
  let ?b = "\<lparr>key = str ''ok'', label = str ''Ok'', type = BOOLEAN, validation = None\<rparr>"
  let ?d = "\<lparr>key = str ''day'', label = str ''Day'', type = DATE, validation = None\<rparr>"
  let ?r = "\<lparr>rule_type = REQUIRED, rule_value = None, rule_message = None\<rparr>"
  have n1: "\<not> conforms sample_engine (type ?n) (VStr (str ''x''))" by code_simp
  have b1: "\<not> conforms sample_engine (type ?b) (VStr (str ''maybe''))" by code_simp
  have d1: "\<not> conforms sample_engine (type ?d) (VNum (Fin 5))" by simp
  have n2: "validateCell sample_engine (VStr (str ''x'')) ?n
              = Inr (projr (validateCell sample_engine (VStr (str ''x'')) ?n))"
    by (simp add: validateCell_def)
  have b2: "validateCell sample_engine (VStr (str ''maybe'')) ?b
              = Inr (projr (validateCell sample_engine (VStr (str ''maybe'')) ?b))"
    by (simp add: validateCell_def)
  have d2: "validateCell sample_engine (VNum (Fin 5)) ?d
              = Inr (projr (validateCell sample_engine (VNum (Fin 5)) ?d))"
    by (simp add: validateCell_def)
  note n = type_failure_is_tagged_required[OF _ _ n1 n2]
  note b = type_failure_is_tagged_required[OF _ _ b1 b2]
  note d = type_failure_is_tagged_required[OF _ _ d1 d2]
  have "projr (validateCell sample_engine (VStr (str ''x'')) ?n)
          = [\<lparr>rule = REQUIRED, message = EXPECTED_NUMBER, column = str ''age''\<rparr>]"
    using n by simp
  with n2 have 1: "validateCell sample_engine (VStr (str ''x'')) ?n
          = Inr [\<lparr>rule = REQUIRED, message = EXPECTED_NUMBER, column = str ''age''\<rparr>]" by simp
  have "projr (validateCell sample_engine (VStr (str ''maybe'')) ?b)
          = [\<lparr>rule = REQUIRED, message = EXPECTED_BOOLEAN, column = str ''ok''\<rparr>]"
    using b by simp
  with b2 have 2: "validateCell sample_engine (VStr (str ''maybe'')) ?b
          = Inr [\<lparr>rule = REQUIRED, message = EXPECTED_BOOLEAN, column = str ''ok''\<rparr>]" by simp
  have "projr (validateCell sample_engine (VNum (Fin 5)) ?d)
          = [\<lparr>rule = REQUIRED, message = EXPECTED_DATE, column = str ''day''\<rparr>]"
    using d by simp
  with d2 have 3: "validateCell sample_engine (VNum (Fin 5)) ?d
          = Inr [\<lparr>rule = REQUIRED, message = EXPECTED_DATE, column = str ''day''\<rparr>]" by simp
  have rr: "rule_type ?r = REQUIRED" by simp
  have "validateRule sample_engine VNull ?r (key ?n)
          = Inr (Some \<lparr>rule = REQUIRED, message = REQUIRED_MESSAGE, column = str ''age''\<rparr>)"
    using n rr by simp
  then have 4: "validateRule sample_engine VNull ?r (str ''age'')
          = Inr (Some \<lparr>rule = REQUIRED, message = REQUIRED_MESSAGE, column = str ''age''\<rparr>)" by simp
  have 5: "EXPECTED_NUMBER \<noteq> REQUIRED_MESSAGE" using n by simp
  from 1 2 3 4 5 show ?thesis by blast
qed

text \<open>
  Claim C5, as stated, fails: the string \<^verbatim>\<open>Infinity\<close> converts to the infinite Number and
  passes type conformance for a number column.
\<close>

theorem number_conformance_accepts_Infinity:
  "Number (str ''Infinity'') = PosInf
   \<and> validateType sample_engine (VStr (str ''Infinity'')) NUMBER (str ''n'') = []"
proof -
  have inf: "Number (str ''Infinity'') = PosInf" by code_simp
  have "trim (str ''Infinity'') = str ''Infinity''" by code_simp
  with inf show ?thesis by (simp add: validateType_def isNaN_def)
qed

text \<open>
  Claim C5, amended.  A non-null value passes type conformance for a number column if and
  only if it is a number, or a string that is not blank and whose conversion by
  \<^verbatim>\<open>Number\<close> is not NaN; the conversion may be finite or infinite.  \<^verbatim>\<open>validateCell\<close> returns
  the outcome of this check at the head of its list.
\<close>

theorem number_conformance:
  assumes "v \<noteq> VNull"
  shows "(validateType P v NUMBER k = []
           \<longleftrightarrow> (\<exists>x. v = VNum x) \<or> (\<exists>s. v = VStr s \<and> trim s \<noteq> [] \<and> Number s \<noteq> NaN))
    \<and> (\<forall>c es. type c = NUMBER \<longrightarrow> key c = k \<longrightarrow> validateCell P v c = Inr es
          \<longrightarrow> (\<exists>rs. es = validateType P v NUMBER k @ rs))"
proof -
  have "validateType P v NUMBER k = []
           \<longleftrightarrow> (\<exists>x. v = VNum x) \<or> (\<exists>s. v = VStr s \<and> trim s \<noteq> [] \<and> Number s \<noteq> NaN)"
    using assms by (cases v) (auto simp: validateType_def isNaN_def)
  moreover have "\<forall>c es. type c = NUMBER \<longrightarrow> key c = k \<longrightarrow> validateCell P v c = Inr es
          \<longrightarrow> (\<exists>rs. es = validateType P v NUMBER k @ rs)"
    using validateCell_prefix by fastforce
  ultimately show ?thesis by blast
qed

theorem number_conformance_witness:
  "VStr (str ''-Infinity'') \<noteq> VNull \<and> trim (str ''-Infinity'') \<noteq> [] \<and> Number (str ''-Infinity'') \<noteq> NaN
   \<and> validateType sample_engine (VStr (str ''-Infinity'')) NUMBER (str ''n'') = []"
proof -
  have h: "VStr (str ''-Infinity'') \<noteq> VNull" by simp
  have t: "trim (str ''-Infinity'') \<noteq> []" by code_simp
  have n: "Number (str ''-Infinity'') \<noteq> NaN" by code_simp
  from number_conformance[OF h, of sample_engine "str ''n''"] t n show ?thesis by blast
qed

section \<open>Properties of the parser\<close>

lemma validateNesting_first:
  "validateNesting obj i m d = (case offences obj i m d of [] \<Rightarrow> Inr () | e # _ \<Rightarrow> Inl e)"
proof (induction obj i m d rule: validateNesting.induct)
  case (1 i m d)
  show ?case by simp
next
  case (2 k v rest i m d)
  show ?case
  proof (cases v)
    case (JObj obj)
    show ?thesis
    proof (cases "m \<le> int d")
      case True
      with JObj show ?thesis by simp
    next
      case False
      with JObj 2 show ?thesis
        by (cases "offences obj i m (d + 1)") (simp_all split: sum.splits list.splits)
    qed
  next
    case (JArr xs)
    then show ?thesis by simp
  qed (use 2 in simp_all)
qed

lemma checkRecords_first:
  "checkRecords rs i m = (case recordOffences rs i m of [] \<Rightarrow> Inr () | e # _ \<Rightarrow> Inl e)"
proof (induction rs arbitrary: i)
  case Nil
  show ?case by simp
next
  case (Cons r rs)
  show ?case
  proof (cases r)
    case (JObj obj)
    with Cons show ?thesis
      by (cases "offences obj i m 0") (simp_all add: validateNesting_first split: list.splits)
  qed simp_all
qed

lemma ParseError_fields [simp]:
  "code (ParseError m) = str ''PARSE_ERROR''"
  "name (ParseError m) = str ''ParseError''"
  "error_message (ParseError m) = m"
  by (simp_all add: ParseError_def new_DataValidatorError_def)

lemma FileSizeError_fields [simp]:
  "code (FileSizeError a b) = str ''FILE_SIZE_ERROR''"
  "name (FileSizeError a b) = str ''FileSizeError''"
  by (simp_all add: FileSizeError_def new_DataValidatorError_def)

lemma offences_ParseError: "e \<in> set (offences obj i m d) \<Longrightarrow> \<exists>msg. e = ParseError msg"
  by (induction obj i m d rule: offences.induct)
     (auto simp: nestingTooDeep_def arrayValue_def split: json.splits if_splits)

lemma recordOffences_ParseError: "e \<in> set (recordOffences rs i m) \<Longrightarrow> \<exists>msg. e = ParseError msg"
  by (induction rs i m rule: recordOffences.induct)
     (auto simp: invalidRecord_def dest: offences_ParseError split: json.splits)

lemma checkRecords_ParseError:
  assumes "checkRecords rs i m = Inl e"
  shows "\<exists>msg. e = ParseError msg"
proof (cases "recordOffences rs i m")
  case Nil
  with assms show ?thesis by (simp add: checkRecords_first)
next
  case (Cons x xs)
  with assms have "e = x" by (simp add: checkRecords_first)
  with Cons have "e \<in> set (recordOffences rs i m)" by simp
  then show ?thesis by (rule recordOffences_ParseError)
qed

text \<open>
  A \<^verbatim>\<open>\u\<close> escape stands for the code unit that it names, also beyond Latin-1: the text
  \<^verbatim>\<open>"\u0141"\<close> denotes the string of the one code unit \<open>0x141\<close>, and two keys that differ only
  in such an escape stay apart.
\<close>

lemma JSON_parse_unicode_escape:
  "JSON_parse ([0x22, 0x5C] @ str ''u0141'' @ [0x22]) = Some (JStr [0x141])
   \<and> JSON_parse (str ''{\"'' @ [0x5C] @ str ''u0141\": 1, \"A\": 2}'')
       = Some (JObj [([0x141], JNum (Fin 1)), (str ''A'', JNum (Fin 2))])"
  by code_simp

text \<open>
  Claim C7, as stated, fails: the four failures carry the same kind code, so the code does
  not tell the failure classes apart.
\<close>

theorem parse_failure_codes_coincide:
  "map (\<lambda>input. case parse sample_engine 0 input no_options of Inl e \<Rightarrow> code e | Inr ds \<Rightarrow> [])
     [[], str ''{not json'', str ''{}'', str ''[]'']
   = [str ''PARSE_ERROR'', str ''PARSE_ERROR'', str ''PARSE_ERROR'', str ''PARSE_ERROR'']"
  by code_simp

text \<open>
  Claim C7, amended.  Every failure raised by \<^verbatim>\<open>parse\<close> carries one of two kind codes: it is
  the \<^verbatim>\<open>FileSizeError\<close> (code \<^verbatim>\<open>FILE_SIZE_ERROR\<close>) exactly when the encoded text exceeds the
  size limit, and a \<^verbatim>\<open>ParseError\<close> (code \<^verbatim>\<open>PARSE_ERROR\<close>) otherwise.  The empty text, the
  text \<^verbatim>\<open>{not json\<close>, the text \<^verbatim>\<open>{}\<close> and the text \<^verbatim>\<open>[]\<close> all fail with a \<^verbatim>\<open>ParseError\<close>; only
  the messages differ.
\<close>

theorem parse_failure_kinds:
  "(\<forall>input opts e. parse P c input opts = Inl e \<longrightarrow>
      (if (case maxFileSize opts of None \<Rightarrow> DEFAULT_MAX_FILE_SIZE | Some m \<Rightarrow> m) < utf8Length input
       then e = FileSizeError (utf8Length input)
                  (case maxFileSize opts of None \<Rightarrow> DEFAULT_MAX_FILE_SIZE | Some m \<Rightarrow> m)
              \<and> code e = str ''FILE_SIZE_ERROR''
       else (\<exists>msg. e = ParseError msg) \<and> code e = str ''PARSE_ERROR''))
   \<and> parse P c [] no_options = Inl (ParseError (str ''File is empty''))
   \<and> parse P c (str ''{not json'') no_options = Inl (ParseError (str ''Invalid JSON: file could not be parsed''))
   \<and> parse P c (str ''{}'') no_options
       = Inl (ParseError (str ''Unsupported structure: expected a JSON array of objects''))
   \<and> parse P c (str ''[]'') no_options
       = Inl (ParseError (str ''Empty dataset: the JSON array contains no records''))"
proof (intro conjI allI impI)
  fix input opts e
  assume "parse P c input opts = Inl e"
  then show "if (case maxFileSize opts of None \<Rightarrow> DEFAULT_MAX_FILE_SIZE | Some m \<Rightarrow> m) < utf8Length input
       then e = FileSizeError (utf8Length input)
                  (case maxFileSize opts of None \<Rightarrow> DEFAULT_MAX_FILE_SIZE | Some m \<Rightarrow> m)
              \<and> code e = str ''FILE_SIZE_ERROR''
       else (\<exists>msg. e = ParseError msg) \<and> code e = str ''PARSE_ERROR''"
    by (auto simp: parse_def Let_def split: if_splits option.splits json.splits sum.splits
             dest!: checkRecords_ParseError)
next
  show "parse P c [] no_options = Inl (ParseError (str ''File is empty''))" by code_simp
  show "parse P c (str ''{not json'') no_options = Inl (ParseError (str ''Invalid JSON: file could not be parsed''))"
    by code_simp
  show "parse P c (str ''{}'') no_options
       = Inl (ParseError (str ''Unsupported structure: expected a JSON array of objects''))" by code_simp
  show "parse P c (str ''[]'') no_options
       = Inl (ParseError (str ''Empty dataset: the JSON array contains no records''))" by code_simp
qed

theorem parse_failure_kinds_witness:
  "parse sample_engine 0 (str ''[7]'') no_options = Inl (invalidRecord 0)
   \<and> code (invalidRecord 0) = str ''PARSE_ERROR''
   \<and> \<not> DEFAULT_MAX_FILE_SIZE < utf8Length (str ''[7]'')"
proof -
  have p: "parse sample_engine 0 (str ''[7]'') no_options = Inl (invalidRecord 0)" by code_simp
  have s: "\<not> (case maxFileSize no_options of None \<Rightarrow> DEFAULT_MAX_FILE_SIZE | Some m \<Rightarrow> m) < utf8Length (str ''[7]'')"
    by code_simp
  from parse_failure_kinds[of sample_engine 0] p s
  have "code (invalidRecord 0) = str ''PARSE_ERROR''" by (metis (no_types, lifting))
  moreover from s have "\<not> DEFAULT_MAX_FILE_SIZE < utf8Length (str ''[7]'')" by (simp add: no_options_def)
  ultimately show ?thesis using p by simp
qed

text \<open>Conversely, a text whose encoding exceeds the size limit always fails, with the \<^verbatim>\<open>FileSizeError\<close>.\<close>

lemma parse_size_limit:
  assumes "maxSize = (case maxFileSize opts of None \<Rightarrow> DEFAULT_MAX_FILE_SIZE | Some m \<Rightarrow> m)"
    and "maxSize < utf8Length input"
  shows "parse P c input opts = Inl (FileSizeError (utf8Length input) maxSize)"
  using assms by (simp add: parse_def Let_def)

text \<open>
  Claim C4, as stated, fails: a record with a plain object nested past the limit under its
  first key and an array under its second key contains both offences, and \<^verbatim>\<open>parse\<close> raises
  the depth failure, not the array failure.
\<close>

theorem parse_raises_depth_failure_before_array_failure:
  "parse sample_engine 0 (str ''[{\"a\": {\"b\": {\"c\": 1}}, \"d\": [1]}]'') no_options
     = Inl (ParseError (str ''Unsupported structure: deeply nested object at record 0, key \"b\". ''
                        @ str ''Maximum nesting depth is 1''))
   \<and> recordOffences
         [JObj [(str ''a'', JObj [(str ''b'', JObj [(str ''c'', JNum (Fin 1))])]), (str ''d'', JArr [JNum (Fin 1)])]] 0 1
     = [nestingTooDeep 0 (str ''b'') 1, arrayValue 0 (str ''d'')]"
  by code_simp

text \<open>
  Claim C4, amended.  \<^verbatim>\<open>parse\<close> checks the size, then blank input, then the JSON syntax, then
  that the value is an array, then that the array is not empty (steps 1 to 5, in this
  order).  Steps 6 to 8 are one pass: the records are visited in order, each is first
  required to be a plain object and then walked depth first in key order, and the failure
  raised is that of the first offending field met (\<open>recordOffences\<close> lists them in that
  order): the depth failure for a plain object at a depth that has reached the limit, the
  array failure for an array.  So an input with both kinds of offence fails with the one
  that comes first in the walk.  The check for columns (step 9) comes last.
\<close>

theorem parse_check_order:
  assumes "maxSize = (case maxFileSize opts of None \<Rightarrow> DEFAULT_MAX_FILE_SIZE | Some m \<Rightarrow> m)"
    and "maxDepth = (case maxNestingDepth opts of None \<Rightarrow> DEFAULT_MAX_NESTING_DEPTH | Some d \<Rightarrow> d)"
  shows "parse P c input opts =
     (if maxSize < utf8Length input then Inl (FileSizeError (utf8Length input) maxSize)
      else if trim input = [] then Inl (ParseError (str ''File is empty''))
      else case JSON_parse input of
             None \<Rightarrow> Inl (ParseError (str ''Invalid JSON: file could not be parsed''))
           | Some (JArr records) \<Rightarrow>
               if records = []
               then Inl (ParseError (str ''Empty dataset: the JSON array contains no records''))
               else (case recordOffences records 0 maxDepth of
                       e # es \<Rightarrow> Inl e
                     | [] \<Rightarrow>
                         if recordProps (hd records) = []
                         then Inl (ParseError (str ''No columns found: the first record has no keys''))
                         else Inr (projr (parse P c input opts)))
           | Some _ \<Rightarrow> Inl (ParseError (str ''Unsupported structure: expected a JSON array of objects'')))"
  using assms
  by (auto simp: parse_def Let_def checkRecords_first hd_map
           split: option.splits json.splits list.splits)

theorem parse_check_order_witness:
  "parse sample_engine 0 (str ''[{\"d\": [1], \"a\": {\"b\": {\"c\": 1}}}]'') no_options
     = Inl (arrayValue 0 (str ''d''))"
proof -
  let ?input = "str ''[{\"d\": [1], \"a\": {\"b\": {\"c\": 1}}}]''"
  let ?records = "[JObj [(str ''d'', JArr [JNum (Fin 1)]), (str ''a'', JObj [(str ''b'', JObj [(str ''c'', JNum (Fin 1))])])]]"
  have j: "JSON_parse ?input = Some (JArr ?records)" by code_simp
  have s: "\<not> DEFAULT_MAX_FILE_SIZE < utf8Length ?input" by code_simp
  have t: "trim ?input \<noteq> []" by code_simp
  have r: "recordOffences ?records 0 DEFAULT_MAX_NESTING_DEPTH
             = [arrayValue 0 (str ''d''), nestingTooDeep 0 (str ''b'') DEFAULT_MAX_NESTING_DEPTH]"
    by (simp add: DEFAULT_MAX_NESTING_DEPTH_def)
  have o1: "DEFAULT_MAX_FILE_SIZE
              = (case maxFileSize no_options of None \<Rightarrow> DEFAULT_MAX_FILE_SIZE | Some m \<Rightarrow> m)"
    and o2: "DEFAULT_MAX_NESTING_DEPTH
              = (case maxNestingDepth no_options of None \<Rightarrow> DEFAULT_MAX_NESTING_DEPTH | Some d \<Rightarrow> d)"
    by (simp_all add: no_options_def)
  from parse_check_order[OF o1 o2, of sample_engine 0 ?input] j s t r show ?thesis by simp
qed

lemma getProperty_own:
  assumes "k \<notin> set Object_prototype_keys"
  shows "getProperty ps k = (case map_of ps k of Some v \<Rightarrow> Own v | None \<Rightarrow> Absent)"
proof -
  from assms have p: "k \<noteq> str ''__proto__''" and "k \<notin> fst ` set Object_prototype_functions"
    by (simp_all add: Object_prototype_keys_def)
  then have "map_of Object_prototype_functions k = None" by (simp add: map_of_eq_None_iff)
  with p show ?thesis by (simp add: getProperty_def split: option.splits)
qed

lemma detectValueType_Own: "detectValueType P (Own v) = classify P v"
  by (simp add: detectValueType_def classify_def split: json.splits)

lemma classifications_Cons:
  "classifications P (record # rest) k =
     (case map_of record k of
        Some v \<Rightarrow> if v = JNull then classifications P rest k else classify P v # classifications P rest k
      | None \<Rightarrow> classifications P rest k)"
  by (simp add: classifications_def presentValues_def split: option.splits)

lemma countTypes_foldl:
  assumes "k \<notin> set Object_prototype_keys"
  shows "countTypes P rs k tc = foldl (\<lambda>tc t. countType t tc) tc (classifications P rs k)"
proof (induction rs arbitrary: tc)
  case Nil
  show ?case by (simp add: classifications_def presentValues_def)
next
  case (Cons r rest)
  show ?case
    by (simp add: getProperty_own[OF assms] classifications_Cons Cons.IH detectValueType_Own Let_def
             split: option.splits)
qed

lemma map_fst_bump:
  "map fst (map (\<lambda>(t', n'). if t' = t then (t', n' + 1) else (t', n')) tc) = map fst tc"
  by (induction tc) auto

lemma map_of_bump:
  "map_of (map (\<lambda>(t', n'). if t' = t then (t', n' + 1) else (t', n')) tc) t'
     = (if t' = t then map_option Suc (map_of tc t) else map_of tc t')"
  by (induction tc) auto

lemma countType_keys:
  "map fst (countType t tc) = (if t \<in> fst ` set tc then map fst tc else map fst tc @ [t])"
proof (cases "map_of tc t")
  case None
  then have "t \<notin> fst ` set tc" by (simp add: map_of_eq_None_iff)
  with None show ?thesis by (simp add: countType_def)
next
  case (Some n)
  then have mem: "t \<in> fst ` set tc" by (metis map_of_eq_None_iff option.distinct(1))
  from Some have "countType t tc = map (\<lambda>(t', n'). if t' = t then (t', n' + 1) else (t', n')) tc"
    by (simp add: countType_def)
  then have "map fst (countType t tc) = map fst tc" by (simp only: map_fst_bump)
  with mem show ?thesis by simp
qed

lemma split_by_keys:
  assumes "map fst H = ks1 @ t # ks2"
  shows "\<exists>pre' n' post'. H = pre' @ (t, n') # post' \<and> map fst pre' = ks1 \<and> map fst post' = ks2"
proof -
  from assms obtain us vs where H: "H = us @ vs" and us: "map fst us = ks1" and vs: "map fst vs = t # ks2"
    by (auto simp: map_eq_append_conv)
  from vs obtain z zs where z: "vs = z # zs" "fst z = t" "map fst zs = ks2"
    by (auto simp: map_eq_Cons_conv)
  then have "vs = (t, snd z) # zs" by (cases z) simp
  with H us z(3) show ?thesis by blast
qed

lemma countType_lookup:
  "map_of (countType t tc) t' =
     (if t' = t then Some (case map_of tc t of None \<Rightarrow> 1 | Some n \<Rightarrow> Suc n) else map_of tc t')"
proof (cases "map_of tc t")
  case None
  then show ?thesis by (auto simp: countType_def map_add_def split: option.splits)
next
  case (Some n)
  then show ?thesis by (simp add: countType_def map_of_bump)
qed

lemma histogram_keys:
  "set (map fst (foldl (\<lambda>tc t. countType t tc) [] cs)) = set cs"
  by (induction cs rule: rev_induct) (auto simp: countType_keys)

lemma histogram_lookup:
  "map_of (foldl (\<lambda>tc t. countType t tc) [] cs) t =
     (if t \<in> set cs then Some (count_list cs t) else None)"
  by (induction cs rule: rev_induct) (auto simp: countType_lookup)

lemma histogram_order:
  "foldl (\<lambda>tc t. countType t tc) [] cs = pre @ (t, n) # post \<Longrightarrow> t' \<in> fst ` set post
     \<Longrightarrow> \<exists>a b. cs = a @ t # b \<and> t' \<notin> set a"
proof (induction cs arbitrary: pre n post rule: rev_induct)
  case Nil
  then show ?case by simp
next
  case (snoc x cs)
  let ?H = "foldl (\<lambda>tc t. countType t tc) [] cs"
  from snoc.prems(1) have "countType x ?H = pre @ (t, n) # post" by simp
  then have "map fst (countType x ?H) = map fst (pre @ (t, n) # post)" by (rule arg_cong)
  then have keys: "map fst (countType x ?H) = map fst pre @ t # map fst post" by simp
  from snoc.prems(2) have t'post: "t' \<in> set (map fst post)" by simp
  have step: "\<exists>a b. cs @ [x] = a @ t # b \<and> t' \<notin> set a"
    if "map fst ?H = map fst pre @ t # ks" and "t' \<in> set ks" for ks
  proof -
    from split_by_keys[OF that(1)] obtain pre' n' post'
      where H: "?H = pre' @ (t, n') # post'" and post': "map fst post' = ks" by blast
    from post' that(2) have "t' \<in> fst ` set post'" by auto
    from snoc.IH[OF H this] obtain a b where "cs = a @ t # b" "t' \<notin> set a" by blast
    then have "cs @ [x] = a @ t # (b @ [x]) \<and> t' \<notin> set a" by simp
    then show ?thesis by blast
  qed
  show ?case
  proof (cases "x \<in> fst ` set ?H")
    case True
    with keys have "map fst ?H = map fst pre @ t # map fst post" by (simp add: countType_keys)
    from step[OF this t'post] show ?thesis .
  next
    case False
    with keys have k2: "map fst ?H @ [x] = map fst pre @ t # map fst post"
      by (simp add: countType_keys)
    from snoc.prems(2) have "post \<noteq> []" by auto
    then obtain post0 q where post: "post = post0 @ [q]" by (metis rev_exhaust)
    with k2 have "map fst ?H @ [x] = (map fst pre @ t # map fst post0) @ [fst q]" by simp
    then have mH: "map fst ?H = map fst pre @ t # map fst post0" and qx: "fst q = x"
      by (simp_all only: append1_eq_conv)
    show ?thesis
    proof (cases "t' \<in> set (map fst post0)")
      case True
      from step[OF mH True] show ?thesis .
    next
      case F2: False
      with t'post post qx have "t' = x" by auto
      from mH have "t \<in> set (map fst ?H)" by simp
      then have "t \<in> set cs" by (simp only: histogram_keys)
      then obtain a b where ab: "cs = a @ t # b" by (meson split_list)
      from False have "x \<notin> set cs" using histogram_keys[of cs] by simp
      with ab have "x \<notin> set a" by simp
      with ab \<open>t' = x\<close> have "cs @ [x] = a @ t # (b @ [x]) \<and> t' \<notin> set a" by simp
      then show ?thesis by blast
    qed
  qed
qed

lemma pickBest_spec:
  "(pickBest ps b bc = b \<and> (\<forall>p\<in>set ps. snd p \<le> bc))
   \<or> (\<exists>pre t n post. ps = pre @ (t, n) # post \<and> pickBest ps b bc = t \<and> bc < n
         \<and> (\<forall>p\<in>set pre. snd p < n) \<and> (\<forall>p\<in>set post. snd p \<le> n))"
proof (induction ps arbitrary: b bc)
  case Nil
  show ?case by simp
next
  case (Cons p ps)
  obtain t n where p: "p = (t, n)" by (cases p)
  show ?case
  proof (cases "bc < n")
    case True
    from Cons[of t n] show ?thesis
    proof
      assume a: "pickBest ps t n = t \<and> (\<forall>p\<in>set ps. snd p \<le> n)"
      have "p # ps = [] @ (t, n) # ps" by (simp add: p)
      with a True p show ?thesis by (intro disjI2 exI[of _ "[]"] exI[of _ t] exI[of _ n] exI[of _ ps]) simp
    next
      assume "\<exists>pre t' n' post. ps = pre @ (t', n') # post \<and> pickBest ps t n = t' \<and> n < n'
         \<and> (\<forall>p\<in>set pre. snd p < n') \<and> (\<forall>p\<in>set post. snd p \<le> n')"
      then obtain pre t' n' post where x: "ps = pre @ (t', n') # post" "pickBest ps t n = t'" "n < n'"
         "\<forall>p\<in>set pre. snd p < n'" "\<forall>p\<in>set post. snd p \<le> n'" by blast
      have "p # ps = (p # pre) @ (t', n') # post" using x(1) by simp
      moreover have "\<forall>q\<in>set (p # pre). snd q < n'" using x(3,4) p by simp
      moreover have "pickBest (p # ps) b bc = t'" using True p x(2) by simp
      moreover have "bc < n'" using True x(3) by simp
      ultimately show ?thesis using x(5) by blast
    qed
  next
    case False
    from Cons[of b bc] show ?thesis
    proof
      assume "pickBest ps b bc = b \<and> (\<forall>p\<in>set ps. snd p \<le> bc)"
      with False p show ?thesis by simp
    next
      assume "\<exists>pre t' n' post. ps = pre @ (t', n') # post \<and> pickBest ps b bc = t' \<and> bc < n'
         \<and> (\<forall>p\<in>set pre. snd p < n') \<and> (\<forall>p\<in>set post. snd p \<le> n')"
      then obtain pre t' n' post where x: "ps = pre @ (t', n') # post" "pickBest ps b bc = t'" "bc < n'"
         "\<forall>p\<in>set pre. snd p < n'" "\<forall>p\<in>set post. snd p \<le> n'" by blast
      have "p # ps = (p # pre) @ (t', n') # post" using x(1) by simp
      moreover have "\<forall>q\<in>set (p # pre). snd q < n'" using x(3,4) p False by simp
      moreover have "pickBest (p # ps) b bc = t'" using False p x(2) by simp
      ultimately show ?thesis using x(3,5) by blast
    qed
  qed
qed


lemma histogram_distinct:
  "distinct (map fst (foldl (\<lambda>tc t. countType t tc) [] cs))"
  by (induction cs rule: rev_induct) (auto simp: countType_keys)

lemma histogram_entries:
  "(t, n) \<in> set (foldl (\<lambda>tc t. countType t tc) [] cs) \<longleftrightarrow> t \<in> set cs \<and> n = count_list cs t"
proof -
  have "(t, n) \<in> set (foldl (\<lambda>tc t. countType t tc) [] cs)
          \<longleftrightarrow> map_of (foldl (\<lambda>tc t. countType t tc) [] cs) t = Some n"
    by (rule map_of_eq_Some_iff[OF histogram_distinct, symmetric])
  also have "\<dots> \<longleftrightarrow> t \<in> set cs \<and> n = count_list cs t"
    by (auto simp: histogram_lookup)
  finally show ?thesis .
qed

lemma inferColumnType_first_seen_leader:
  assumes k: "k \<notin> set Object_prototype_keys"
    and cs: "cs = classifications P records k" and t: "t = inferColumnType P records k"
  shows "(cs = [] \<longrightarrow> t = STRING)
       \<and> (cs \<noteq> [] \<longrightarrow>
            t \<in> set cs
          \<and> (\<forall>t'. count_list cs t' \<le> count_list cs t)
          \<and> (\<forall>t'. t' \<noteq> t \<and> count_list cs t' = count_list cs t
                  \<longrightarrow> (\<exists>a b. cs = a @ t # b \<and> t' \<notin> set a)))"
proof (intro conjI impI)
  assume "cs = []"
  then show "t = STRING" using cs t by (simp add: inferColumnType_def countTypes_foldl[OF k])
next
  let ?H = "foldl (\<lambda>tc t. countType t tc) [] cs"
  have tH: "t = pickBest ?H STRING 0" using cs t by (simp add: inferColumnType_def countTypes_foldl[OF k])
  assume ne: "cs \<noteq> []"
  then obtain x where x: "x \<in> set cs" by (cases cs) auto
  then have "(x, count_list cs x) \<in> set ?H" by (simp add: histogram_entries)
  moreover from x have "0 < count_list cs x" by (metis count_list_0_iff gr0I)
  ultimately have "\<exists>p\<in>set ?H. 0 < snd p" by (intro bexI[of _ "(x, count_list cs x)"]) simp_all
  then have nz: "\<not> (\<forall>p\<in>set ?H. snd p \<le> 0)" by (simp add: not_le)
  from pickBest_spec[of ?H STRING 0] nz
  have "\<exists>pre t' n post. ?H = pre @ (t', n) # post \<and> pickBest ?H STRING 0 = t' \<and> 0 < n
         \<and> (\<forall>p\<in>set pre. snd p < n) \<and> (\<forall>p\<in>set post. snd p \<le> n)" by blast
  then obtain pre t' n post where H': "?H = pre @ (t', n) # post" and pb: "pickBest ?H STRING 0 = t'"
    and n0: "0 < n"
    and pre: "\<forall>p\<in>set pre. snd p < n" and post: "\<forall>p\<in>set post. snd p \<le> n"
    by blast
  from pb tH have "t' = t" by simp
  with H' have H: "?H = pre @ (t, n) # post" by simp
  have "(t, n) \<in> set ?H" by (simp add: H)
  then have tin: "t \<in> set cs" and n: "n = count_list cs t" by (simp_all add: histogram_entries)
  have le: "count_list cs t' \<le> count_list cs t" for t'
  proof (cases "t' \<in> set cs")
    case True
    then have "(t', count_list cs t') \<in> set ?H" by (simp add: histogram_entries)
    then consider (a) "(t', count_list cs t') \<in> set pre" | (b) "(t', count_list cs t') = (t, n)"
      | (c) "(t', count_list cs t') \<in> set post" by (auto simp: H)
    then show ?thesis
    proof cases
      case a
      with pre have "snd (t', count_list cs t') < n" by blast
      with n show ?thesis by simp
    next
      case b
      with n show ?thesis by simp
    next
      case c
      with post have "snd (t', count_list cs t') \<le> n" by blast
      with n show ?thesis by simp
    qed
  next
    case False
    then show ?thesis by simp
  qed
  have tie: "\<exists>a b. cs = a @ t # b \<and> t' \<notin> set a"
    if "t' \<noteq> t \<and> count_list cs t' = count_list cs t" for t'
  proof -
    from that n n0 have "0 < count_list cs t'" by simp
    then have "t' \<in> set cs" by (metis count_list_0_iff less_numeral_extra(3))
    with that n have "(t', n) \<in> set ?H" by (simp add: histogram_entries)
    then consider (a) "(t', n) \<in> set pre" | (b) "(t', n) = (t, n)" | (c) "(t', n) \<in> set post"
      by (auto simp: H)
    then have "(t', n) \<in> set post"
    proof cases
      case a
      with pre have "snd (t', n) < n" by blast
      then show ?thesis by simp
    next
      case b
      with that show ?thesis by simp
    next
      case c
      then show ?thesis .
    qed
    then have "fst (t', n) \<in> fst ` set post" by (rule imageI)
    then have "t' \<in> fst ` set post" by simp
    from histogram_order[OF H this] show ?thesis .
  qed
  show "t \<in> set cs" by (rule tin)
  show "\<forall>t'. count_list cs t' \<le> count_list cs t" using le by blast
  show "\<forall>t'. t' \<noteq> t \<and> count_list cs t' = count_list cs t
                  \<longrightarrow> (\<exists>a b. cs = a @ t # b \<and> t' \<notin> set a)" using tie by blast
qed

lemma parse_columns:
  assumes "parse P n input opts = Inr (ds, n')"
  shows "columns ds =
           map (\<lambda>k. \<lparr>key = k, label = formatLabel k,
                      type = inferColumnType P (inputRecords input) k, validation = None\<rparr>)
             (map fst (hd (inputRecords input)))"
  using assms
  by (auto simp: parse_def inputRecords_def Let_def
           split: if_splits option.splits json.splits sum.splits)

text \<open>
  Claim C6, as stated, fails on a tie.  For the values \<^verbatim>\<open>"a"\<close>, \<^verbatim>\<open>1\<close>, \<^verbatim>\<open>1\<close>, \<^verbatim>\<open>"b"\<close> the
  classifications string and number both occur twice; number is the first to reach the
  leading count 2, yet \<^verbatim>\<open>parse\<close> types the column string.
\<close>

theorem inferred_type_is_not_first_to_reach:
  "(case parse sample_engine 0 (str ''[{\"v\":\"a\"},{\"v\":1},{\"v\":1},{\"v\":\"b\"}]'') no_options of
      Inr (ds, n) \<Rightarrow> map type (columns ds) | Inl e \<Rightarrow> []) = [STRING]
   \<and> classifications sample_engine
         (inputRecords (str ''[{\"v\":\"a\"},{\"v\":1},{\"v\":1},{\"v\":\"b\"}]'')) (str ''v'')
       = [STRING, NUMBER, NUMBER, STRING]
   \<and> leadingCount [STRING, NUMBER, NUMBER, STRING] = 2
   \<and> firstToReach [STRING, NUMBER, NUMBER, STRING] = Some NUMBER"
  by code_simp

text \<open>
  Claim C6, amended.  The columns of the DataSet that \<^verbatim>\<open>parse\<close> returns are the keys of the
  first record, in order.  Take a column whose key is not the name of a member that
  every object inherits from \<^verbatim>\<open>Object.prototype\<close>, and let its classifications be those of
  the values that the records themselves have under the key and that are not null, in
  record order.  If there are none, the column is typed string.  Otherwise its type is a
  classification with the highest occurrence count, and on a tie it is the tied
  classification that was seen first: it occurs in the column before any other
  classification with the same count does.
\<close>

theorem inferred_type_is_first_seen_leader:
  assumes "parse P n input opts = Inr (ds, n')"
  shows "map key (columns ds) = map fst (hd (inputRecords input))
    \<and> (\<forall>c cs. c \<in> set (columns ds) \<and> key c \<notin> set Object_prototype_keys
               \<and> cs = classifications P (inputRecords input) (key c) \<longrightarrow>
         (cs = [] \<longrightarrow> type c = STRING)
       \<and> (cs \<noteq> [] \<longrightarrow>
            type c \<in> set cs
          \<and> (\<forall>t'. count_list cs t' \<le> count_list cs (type c))
          \<and> (\<forall>t'. t' \<noteq> type c \<and> count_list cs t' = count_list cs (type c)
                  \<longrightarrow> (\<exists>a b. cs = a @ type c # b \<and> t' \<notin> set a))))"
proof (rule conjI)
  note cols = parse_columns[OF assms]
  show "map key (columns ds) = map fst (hd (inputRecords input))"
    by (simp add: cols comp_def)
  show "\<forall>c cs. c \<in> set (columns ds) \<and> key c \<notin> set Object_prototype_keys
               \<and> cs = classifications P (inputRecords input) (key c) \<longrightarrow>
         (cs = [] \<longrightarrow> type c = STRING)
       \<and> (cs \<noteq> [] \<longrightarrow>
            type c \<in> set cs
          \<and> (\<forall>t'. count_list cs t' \<le> count_list cs (type c))
          \<and> (\<forall>t'. t' \<noteq> type c \<and> count_list cs t' = count_list cs (type c)
                  \<longrightarrow> (\<exists>a b. cs = a @ type c # b \<and> t' \<notin> set a)))"
  proof (intro allI impI)
    fix c cs
    assume h: "c \<in> set (columns ds) \<and> key c \<notin> set Object_prototype_keys
                 \<and> cs = classifications P (inputRecords input) (key c)"
    then have t: "type c = inferColumnType P (inputRecords input) (key c)"
      by (auto simp: cols)
    from h have k: "key c \<notin> set Object_prototype_keys"
      and cs: "cs = classifications P (inputRecords input) (key c)" by simp_all
    show "(cs = [] \<longrightarrow> type c = STRING)
       \<and> (cs \<noteq> [] \<longrightarrow>
            type c \<in> set cs
          \<and> (\<forall>t'. count_list cs t' \<le> count_list cs (type c))
          \<and> (\<forall>t'. t' \<noteq> type c \<and> count_list cs t' = count_list cs (type c)
                  \<longrightarrow> (\<exists>a b. cs = a @ type c # b \<and> t' \<notin> set a)))"
      by (rule inferColumnType_first_seen_leader[OF k cs t])
  qed
qed

theorem inferred_type_is_first_seen_leader_witness:
  "(case parse sample_engine 0 (str ''[{\"v\":\"a\"},{\"v\":1},{\"v\":1},{\"v\":\"b\"}]'') no_options of
      Inr (ds, n) \<Rightarrow> map (\<lambda>c. (key c, type c)) (columns ds) | Inl e \<Rightarrow> []) = [(str ''v'', STRING)]
   \<and> str ''v'' \<notin> set Object_prototype_keys
   \<and> classifications sample_engine
         (inputRecords (str ''[{\"v\":\"a\"},{\"v\":1},{\"v\":1},{\"v\":\"b\"}]'')) (str ''v'')
       = [STRING, NUMBER, NUMBER, STRING]
   \<and> count_list [STRING, NUMBER, NUMBER, STRING] NUMBER = count_list [STRING, NUMBER, NUMBER, STRING] STRING
   \<and> (\<exists>a b. [STRING, NUMBER, NUMBER, STRING] = a @ STRING # b \<and> NUMBER \<notin> set a)"
proof -
  let ?input = "str ''[{\"v\":\"a\"},{\"v\":1},{\"v\":1},{\"v\":\"b\"}]''"
  let ?p = "parse sample_engine 0 ?input no_options"
  let ?c = "\<lparr>key = str ''v'', label = str ''V'', type = STRING, validation = None\<rparr>"
  have p: "?p = Inr (fst (projr ?p), snd (projr ?p))" by code_simp
  have c: "columns (fst (projr ?p)) = [?c]" by code_simp
  have k: "str ''v'' \<notin> set Object_prototype_keys" by code_simp
  have cl: "classifications sample_engine (inputRecords ?input) (str ''v'')
              = [STRING, NUMBER, NUMBER, STRING]" by code_simp
  have n: "count_list [STRING, NUMBER, NUMBER, STRING] NUMBER
             = count_list [STRING, NUMBER, NUMBER, STRING] STRING" by simp
  from inferred_type_is_first_seen_leader[OF p] c k cl
  have "[STRING, NUMBER, NUMBER, STRING] \<noteq> [] \<longrightarrow>
          (\<forall>t'. t' \<noteq> STRING \<and> count_list [STRING, NUMBER, NUMBER, STRING] t'
                                = count_list [STRING, NUMBER, NUMBER, STRING] STRING
                \<longrightarrow> (\<exists>a b. [STRING, NUMBER, NUMBER, STRING] = a @ STRING # b \<and> t' \<notin> set a))"
    by (metis (no_types, lifting) Column.select_convs(1,3) list.set_intros(1))
  with n have e: "\<exists>a b. [STRING, NUMBER, NUMBER, STRING] = a @ STRING # b \<and> NUMBER \<notin> set a"
    by simp
  have m: "(case ?p of Inr (ds, n) \<Rightarrow> map (\<lambda>c. (key c, type c)) (columns ds) | Inl e \<Rightarrow> [])
             = [(str ''v'', STRING)]"
    by code_simp
  from m k cl n e show ?thesis by blast
qed

text \<open>
  Why the theorem leaves out keys that are names of inherited members: a record without
  such a field still yields a value under the key, the inherited member, and
  \<^verbatim>\<open>inferColumnType\<close> counts it as a string.  For \<^verbatim>\<open>[{"toString":1},{},{}]\<close> the only value
  present is a number, and the column is typed string.
\<close>

lemma inherited_member_is_counted_as_string:
  "(case parse sample_engine 0 (str ''[{\"toString\":1},{},{}]'') no_options of
      Inr (ds, n) \<Rightarrow> map (\<lambda>c. (key c, type c)) (columns ds) | Inl e \<Rightarrow> [])
     = [(str ''toString'', STRING)]
   \<and> classifications sample_engine (inputRecords (str ''[{\"toString\":1},{},{}]'')) (str ''toString'')
     = [NUMBER]"
  by code_simp

section \<open>Properties of the store\<close>

lemma setState_fields [simp]:
  "state (setState st s) = st"
  "notified (setState st s) = notified s @ subscribers s"
  "subscribers (setState st s) = subscribers s"
  "options (setState st s) = options s"
  "nextAddress (setState st s) = nextAddress s"
  "rowIdCounter (setState st s) = rowIdCounter s"
  by (simp_all add: setState_def notify_def)

subsection \<open>Reachable stores are well formed\<close>


lemma findIndex_find: "findIndex p xs = None \<longleftrightarrow> find p xs = None"
  by (induction xs) simp_all

lemma heap_ok_Loaded:
  "state s = Loaded d \<Longrightarrow> heap_ok s \<longleftrightarrow> (\<forall>a\<in>set (addresses d). a < nextAddress s)"
  by (simp add: heap_ok_def list_all_iff)

lemma allocate_addresses: "map address (allocate a xs) = [a ..< a + length xs]"
  by (induction xs arbitrary: a) (simp_all add: upt_rec)

lemma allocate_length [simp]: "length (allocate a xs) = length xs"
  by (induction xs arbitrary: a) simp_all

lemma heap_ok_setState_other:
  "\<not> (\<exists>d. st = Loaded d) \<Longrightarrow> heap_ok (setState st s)"
  by (cases st) (simp_all add: heap_ok_def)

lemma loadFromString_heap_ok: "heap_ok (loadFromString P jsonString fileName' s)"
  by (auto simp: loadFromString_def Let_def heap_ok_def addresses_def list_all_iff allocate_addresses
           split: sum.splits prod.splits)

lemma loadFromFile_heap_ok: "heap_ok (loadFromFile P fl s)"
  by (simp add: loadFromFile_def Let_def loadFromString_heap_ok heap_ok_setState_other
           split: sum.splits)

lemma addValidationRules_heap_ok:
  assumes "heap_ok s"
  shows "heap_ok (snd (addValidationRules P columnKey rules s))"
proof (cases "state s")
  case (Loaded d)
  with assms have below: "\<forall>a\<in>set (addresses d). a < nextAddress s" by (simp add: heap_ok_Loaded)
  then have m: "address (metadataRef d) < nextAddress s" by (simp add: addresses_def)
  show ?thesis using Loaded below m
    by (auto simp: addValidationRules_def Let_def heap_ok_def addresses_def list_all_iff
                   allocate_addresses
             split: sum.splits lookup.splits)
qed (use assms in \<open>auto simp: addValidationRules_def Let_def heap_ok_def split: sum.splits lookup.splits\<close>)

lemma updateCell_heap_ok:
  assumes "heap_ok s"
  shows "heap_ok (snd (updateCell P rowId columnKey v s))"
proof (cases "state s")
  case (Loaded d)
  with assms have below: "\<forall>a\<in>set (addresses d). a < nextAddress s" by (simp add: heap_ok_Loaded)
  show ?thesis using Loaded below assms
    by (auto simp: updateCell_def Let_def heap_ok_def addresses_def list_all_iff
             split: sum.splits option.splits dest!: set_update_subset_insert[THEN subsetD])
       (force+)?
qed (use assms in \<open>auto simp: updateCell_def heap_ok_def\<close>)

lemma batchLoop_addresses:
  "batchLoop P cols m edits rws a = Inr (rws', a') \<Longrightarrow>
     a \<le> a' \<and> (\<forall>x\<in>set (map address rws'). x \<in> set (map address rws) \<or> (a \<le> x \<and> x < a'))"
proof (induction edits arbitrary: rws a)
  case Nil
  then show ?case by simp
next
  case (Cons e es)
  show ?case
  proof (cases "m (edit_rowId e)")
    case None
    with Cons show ?thesis by simp
  next
    case (Some i)
    show ?thesis
    proof (cases "find (\<lambda>c. key c = edit_columnKey e) cols")
      case None
      with Some Cons show ?thesis by simp
    next
      case (Some c)
      with \<open>m (edit_rowId e) = Some i\<close> Cons.prems obtain ces where
        v: "validateCell P (edit_value e) c = Inr ces"
        and rec: "batchLoop P cols m es
                   (rws[i := At a (editRow (edit_columnKey e) (edit_value e) ces (deref (rws ! i)))])
                   (Suc a) = Inr (rws', a')"
        by (auto split: sum.splits)
      from Cons.IH[OF rec] have le: "Suc a \<le> a'"
        and all: "\<forall>x\<in>set (map address rws').
           x \<in> set (map address (rws[i := At a (editRow (edit_columnKey e) (edit_value e) ces (deref (rws ! i)))]))
             \<or> (Suc a \<le> x \<and> x < a')" by simp_all
      have "x \<in> set (map address rws) \<or> (a \<le> x \<and> x < a')" if "x \<in> set (map address rws')" for x
      proof -
        from all that have "x \<in> set (map address (rws[i := At a (editRow (edit_columnKey e) (edit_value e) ces (deref (rws ! i)))]))
             \<or> (Suc a \<le> x \<and> x < a')" by blast
        then show ?thesis
        proof
          assume "x \<in> set (map address (rws[i := At a (editRow (edit_columnKey e) (edit_value e) ces (deref (rws ! i)))]))"
          then have "x = a \<or> x \<in> set (map address rws)"
            by (auto dest!: set_update_subset_insert[THEN subsetD])
          with le show ?thesis by auto
        next
          assume "Suc a \<le> x \<and> x < a'"
          then show ?thesis by simp
        qed
      qed
      with le show ?thesis by auto
    qed
  qed
qed

lemma batchUpdateCells_heap_ok:
  assumes "heap_ok s"
  shows "heap_ok (snd (batchUpdateCells P edits s))"
proof (cases "state s")
  case (Loaded d)
  with assms have below: "\<forall>a\<in>set (addresses d). a < nextAddress s" by (simp add: heap_ok_Loaded)
  show ?thesis
  proof (cases "batchLoop P (deref (columnsRef d)) (rowIndexMap (deref (rowsRef d)) 0 Map.empty) edits
                  (deref (rowsRef d)) (nextAddress s + 1)")
    case (Inl e)
    with Loaded assms show ?thesis by (simp add: batchUpdateCells_def Let_def)
  next
    case (Inr r)
    obtain rows' a' where r: "r = (rows', a')" by (cases r)
    from batchLoop_addresses[OF Inr[unfolded r]]
    have le: "nextAddress s + 1 \<le> a'"
      and all: "\<forall>x\<in>set (map address rows'). x \<in> set (map address (deref (rowsRef d)))
                  \<or> (nextAddress s + 1 \<le> x \<and> x < a')" by simp_all
    have "\<forall>x\<in>set (map address rows'). x < a'"
    proof
      fix x assume "x \<in> set (map address rows')"
      with all have "x \<in> set (map address (deref (rowsRef d))) \<or> (nextAddress s + 1 \<le> x \<and> x < a')" by blast
      with below le show "x < a'" by (auto simp: addresses_def)
    qed
    with below le Loaded Inr r show ?thesis
      by (auto simp: batchUpdateCells_def Let_def heap_ok_def addresses_def list_all_iff)
  qed
qed (use assms in \<open>auto simp: batchUpdateCells_def heap_ok_def\<close>)

lemma subscribers_preserved [simp]:
  "subscribers (loadFromString P jsonString fileName' s) = subscribers s"
  "subscribers (loadFromFile P fl s) = subscribers s"
  "subscribers (snd (updateCell P rowId columnKey v s)) = subscribers s"
  "subscribers (snd (batchUpdateCells P edits s)) = subscribers s"
  "subscribers (snd (addValidationRules P k rules s)) = subscribers s"
  "subscribers (reset s) = subscribers s"
  by (auto simp: loadFromString_def loadFromFile_def updateCell_def batchUpdateCells_def
                 addValidationRules_def reset_def Let_def
           split: sum.splits prod.splits option.splits DataStoreState.splits lookup.splits)

lemma reachable_invariant:
  "reachable P s \<Longrightarrow> heap_ok s \<and> distinct (subscribers s)"
proof (induction rule: reachable.induct)
  case (reach_new opts)
  show ?case by (simp add: new_DataStore_def heap_ok_def)
next
  case (reach_subscribe s f)
  then show ?case by (simp add: subscribe_def heap_ok_def split: DataStoreState.splits)
next
  case (reach_unsubscribe s f)
  then show ?case by (simp add: unsubscribe_def heap_ok_def split: DataStoreState.splits)
next
  case (reach_loadFromString s jsonString nm)
  then show ?case by (simp add: loadFromString_heap_ok)
next
  case (reach_loadFromFile s fl)
  then show ?case by (simp add: loadFromFile_heap_ok)
next
  case (reach_updateCell s rowId columnKey v)
  then show ?case by (simp add: updateCell_heap_ok)
next
  case (reach_batchUpdateCells s edits)
  then show ?case by (simp add: batchUpdateCells_heap_ok)
next
  case (reach_addValidationRules s columnKey rules)
  then show ?case by (simp add: addValidationRules_heap_ok)
next
  case (reach_reset s)
  then show ?case by (simp add: reset_def heap_ok_setState_other)
qed

lemma sample_stores_reachable:
  "reachable sample_engine (store_with rules)"
  "reachable sample_engine two_rows_store"
  "reachable sample_engine ages_store"
  "reachable sample_engine bad_pattern_store"
  unfolding store_with_def two_rows_store_def ages_store_def bad_pattern_store_def
  by (intro reachable.intros)+

subsection \<open>Notifications\<close>

lemma loadFromString_notified:
  "notified (loadFromString P jsonString fileName' s) = notified s @ subscribers s @ subscribers s"
  by (simp add: loadFromString_def Let_def split: sum.splits prod.splits)

lemma loadFromFile_notified:
  "notified (loadFromFile P fl s) =
     notified s @ subscribers s @ subscribers s
       @ (if req_maxFileSize (options s) < file_size fl \<or> isl (file_text fl) then []
          else subscribers s)"
  by (auto simp: loadFromFile_def Let_def loadFromString_notified split: sum.splits)

lemma updateCell_notified:
  "notified (snd (updateCell P rowId columnKey v s)) =
     notified s @
       (if fst (updateCell P rowId columnKey v s) = None
           \<and> getRow rowId s \<noteq> None \<and> find (\<lambda>c. key c = columnKey) (getColumns s) \<noteq> None
        then subscribers s else [])"
  by (auto simp: updateCell_def Let_def getRow_def getRows_def getColumns_def getData_def
                 findIndex_find[of "\<lambda>r. row_id (deref r) = rowId", symmetric]
           split: DataStoreState.splits option.splits sum.splits)

lemma batchUpdateCells_notified:
  "notified (snd (batchUpdateCells P edits s)) =
     notified s @
       (if fst (batchUpdateCells P edits s) = None \<and> getData s \<noteq> None
        then subscribers s else [])"
  by (auto simp: batchUpdateCells_def Let_def getData_def
           split: DataStoreState.splits sum.splits prod.splits)

lemma addValidationRules_notified:
  "notified (snd (addValidationRules P columnKey rules s)) =
     notified s @
       (if fst (addValidationRules P columnKey rules s) = None \<and> getData s \<noteq> None
        then subscribers s else [])"
  by (auto simp: addValidationRules_def Let_def getData_def
           split: DataStoreState.splits sum.splits lookup.splits)

lemma count_list_distinct: "distinct xs \<Longrightarrow> f \<in> set xs \<Longrightarrow> count_list xs f = 1"
  by (induction xs) (auto simp: count_list_0_iff)

lemma calls_append: "notified s' = notified s @ xs \<Longrightarrow> calls s s' f = count_list xs f"
  by (simp add: calls_def)

text \<open>
  Claim C2, as stated, fails for \<^verbatim>\<open>loadFromString\<close>: the call replaces the state twice, first
  by \<^verbatim>\<open>loading\<close> and then by the outcome, and the subscriber is called both times.
\<close>

theorem loadFromString_notifies_twice:
  "subscribers (store_with []) = [7]
   \<and> calls (store_with [])
        (loadFromString sample_engine (str ''[{\"a\": 1}, {\"a\": 2}]'') None (store_with [])) 7 = 2"
  by code_simp

text \<open>
  Claim C2, amended.  A subscriber registered when a mutating method is called on a store
  is called once for every replacement of the state that the method makes: twice by
  \<^verbatim>\<open>loadFromString\<close> (\<^verbatim>\<open>loading\<close>, then \<^verbatim>\<open>loaded\<close> or \<^verbatim>\<open>error\<close>); twice by \<^verbatim>\<open>loadFromFile\<close> when the
  file is too large or cannot be read, and three times otherwise; once by \<^verbatim>\<open>reset\<close>; once
  by \<^verbatim>\<open>updateCell\<close> when the call returns and the row and the column exist, once by
  \<^verbatim>\<open>batchUpdateCells\<close> and by \<^verbatim>\<open>addValidationRules\<close> when the call returns and a DataSet is
  loaded, and not at all by these three otherwise.
\<close>

theorem notifications_per_call:
  assumes "reachable P s" and "f \<in> set (subscribers s)"
  shows "calls s (loadFromString P jsonString fileName' s) f = 2
    \<and> calls s (loadFromFile P fl s) f
        = (if req_maxFileSize (options s) < file_size fl \<or> isl (file_text fl) then 2 else 3)
    \<and> calls s (reset s) f = 1
    \<and> calls s (snd (updateCell P rowId columnKey v s)) f
        = (if fst (updateCell P rowId columnKey v s) = None
              \<and> getRow rowId s \<noteq> None \<and> find (\<lambda>c. key c = columnKey) (getColumns s) \<noteq> None
           then 1 else 0)
    \<and> calls s (snd (batchUpdateCells P edits s)) f
        = (if fst (batchUpdateCells P edits s) = None \<and> getData s \<noteq> None then 1 else 0)
    \<and> calls s (snd (addValidationRules P k rules s)) f
        = (if fst (addValidationRules P k rules s) = None \<and> getData s \<noteq> None then 1 else 0)"
proof -
  from assms(1) have "distinct (subscribers s)" by (simp add: reachable_invariant)
  with assms(2) have one: "count_list (subscribers s) f = 1" by (simp add: count_list_distinct)
  have "calls s (loadFromString P jsonString fileName' s) f = 2"
    using calls_append[OF loadFromString_notified] one by simp
  moreover have "calls s (loadFromFile P fl s) f
        = (if req_maxFileSize (options s) < file_size fl \<or> isl (file_text fl) then 2 else 3)"
    using calls_append[OF loadFromFile_notified] one by simp
  moreover have "calls s (reset s) f = 1"
    using one by (simp add: calls_def reset_def)
  moreover have "calls s (snd (updateCell P rowId columnKey v s)) f
        = (if fst (updateCell P rowId columnKey v s) = None
              \<and> getRow rowId s \<noteq> None \<and> find (\<lambda>c. key c = columnKey) (getColumns s) \<noteq> None
           then 1 else 0)"
    using calls_append[OF updateCell_notified] one by simp
  moreover have "calls s (snd (batchUpdateCells P edits s)) f
        = (if fst (batchUpdateCells P edits s) = None \<and> getData s \<noteq> None then 1 else 0)"
    using calls_append[OF batchUpdateCells_notified] one by simp
  moreover have "calls s (snd (addValidationRules P k rules s)) f
        = (if fst (addValidationRules P k rules s) = None \<and> getData s \<noteq> None then 1 else 0)"
    using calls_append[OF addValidationRules_notified] one by simp
  ultimately show ?thesis by blast
qed

theorem notifications_per_call_witness:
  "7 \<in> set (subscribers two_rows_store)
   \<and> calls two_rows_store (loadFromString sample_engine (str ''[]'') None two_rows_store) 7 = 2
   \<and> calls two_rows_store (reset two_rows_store) 7 = 1
   \<and> calls two_rows_store
        (snd (updateCell sample_engine (str ''row-1-2-0'') (str ''a'') (VNum (Fin 5)) two_rows_store)) 7 = 1
   \<and> calls two_rows_store
        (snd (updateCell sample_engine (str ''no such row'') (str ''a'') (VNum (Fin 5)) two_rows_store)) 7 = 0"
proof -
  have f: "7 \<in> set (subscribers two_rows_store)" by code_simp
  have u1: "fst (updateCell sample_engine (str ''row-1-2-0'') (str ''a'') (VNum (Fin 5)) two_rows_store) = None
       \<and> getRow (str ''row-1-2-0'') two_rows_store \<noteq> None
       \<and> find (\<lambda>c. key c = str ''a'') (getColumns two_rows_store) \<noteq> None" by code_simp
  have u2: "getRow (str ''no such row'') two_rows_store = None" by code_simp
  note t = notifications_per_call[OF sample_stores_reachable(2) f]
  from t[of "str ''[]''" None] have 1:
    "calls two_rows_store (loadFromString sample_engine (str ''[]'') None two_rows_store) 7 = 2" by simp
  from t have 2: "calls two_rows_store (reset two_rows_store) 7 = 1" by simp
  from t[of _ _ _ "str ''row-1-2-0''" "str ''a''" "VNum (Fin 5)"] u1 have 3:
    "calls two_rows_store
        (snd (updateCell sample_engine (str ''row-1-2-0'') (str ''a'') (VNum (Fin 5)) two_rows_store)) 7 = 1"
    by simp
  from t[of _ _ _ "str ''no such row''" "str ''a''" "VNum (Fin 5)"] u2 have 4:
    "calls two_rows_store
        (snd (updateCell sample_engine (str ''no such row'') (str ''a'') (VNum (Fin 5)) two_rows_store)) 7 = 0"
    by simp
  from f 1 2 3 4 show ?thesis by blast
qed

subsection \<open>Reference stability\<close>



subsection \<open>Rules added to a loaded store\<close>

text \<open>
  Claim C1 fails on the code.  The store \<open>ages_store\<close> was built with the rule \<^verbatim>\<open>min 0\<close> for
  \<^verbatim>\<open>age\<close> and has loaded one record, so the column carries that rule once.  After
  \<^verbatim>\<open>addValidationRules("age", [max 10])\<close> the store's rule list for \<^verbatim>\<open>age\<close> is \<^verbatim>\<open>min 0\<close>,
  \<^verbatim>\<open>max 10\<close>, but the column's list is \<^verbatim>\<open>min 0\<close>, \<^verbatim>\<open>min 0\<close>, \<^verbatim>\<open>max 10\<close>: the rules are appended to
  the list that the column already has, and the cell \<open>-1\<close> is reported twice for the same
  rule.
\<close>

theorem addValidationRules_duplicates_rules:
  "validationRules (options ages_store) = [(str ''age'', [min_0])]
   \<and> map validation (getColumns ages_store) = [Some [min_0]]
   \<and> fst (addValidationRules sample_engine (str ''age'') [max_10] ages_store) = None
   \<and> validationRules (options (snd (addValidationRules sample_engine (str ''age'') [max_10] ages_store)))
       = [(str ''age'', [min_0, max_10])]
   \<and> map validation (getColumns (snd (addValidationRules sample_engine (str ''age'') [max_10] ages_store)))
       = [Some [min_0, min_0, max_10]]
   \<and> map (\<lambda>r. errors (deref r))
         (getRows (snd (addValidationRules sample_engine (str ''age'') [max_10] ages_store)))
       = [[(str ''age'',
            [\<lparr>rule = MIN_VALUE, message = str ''Value must be at least 0'', column = str ''age''\<rparr>,
             \<lparr>rule = MIN_VALUE, message = str ''Value must be at least 0'', column = str ''age''\<rparr>])]]"
  by code_simp

subsection \<open>Exceptions that escape the editing methods\<close>

lemma validateCell_pattern_throws:
  assumes "RegExp_new P p = Inl m"
    and "validation c = Some (\<lparr>rule_type = PATTERN, rule_value = Some (StringValue p), rule_message = msg\<rparr> # rs)"
  shows "validateCell P (VStr s) c = Inl (SyntaxError m)"
  using assms by (simp add: validateCell_def validateRule_def)

text \<open>
  Claim C3 fails on the code.  The column \<^verbatim>\<open>a\<close> of \<open>bad_pattern_store\<close> carries a \<^verbatim>\<open>pattern\<close>
  rule whose operand \<^verbatim>\<open>(\<close> is not a regular expression.  Loading succeeded, because the
  value was a number and the rule was skipped; \<^verbatim>\<open>updateCell\<close> and \<^verbatim>\<open>batchUpdateCells\<close> with a
  string value raise the SyntaxError of \<^verbatim>\<open>new RegExp\<close> to their caller, and so does
  \<^verbatim>\<open>addValidationRules\<close> when it adds such a rule to a column that holds a string.
\<close>

theorem editing_methods_raise_SyntaxError:
  "map_option (\<lambda>d. map validation (deref (columnsRef d))) (getData bad_pattern_store)
     = Some [Some [bad_pattern]]
   \<and> fst (updateCell sample_engine (str ''row-0-1-0'') (str ''a'') (VStr (str ''x'')) bad_pattern_store)
     = Some (SyntaxError (str ''Invalid regular expression: /(/: Unterminated group''))
   \<and> fst (batchUpdateCells sample_engine
            [\<lparr>edit_rowId = str ''row-0-1-0'', edit_columnKey = str ''a'', edit_value = VStr (str ''x'')\<rparr>]
            bad_pattern_store)
     = Some (SyntaxError (str ''Invalid regular expression: /(/: Unterminated group''))
   \<and> fst (addValidationRules sample_engine (str ''name'') [bad_pattern] names_store)
     = Some (SyntaxError (str ''Invalid regular expression: /(/: Unterminated group''))"
  by code_simp

subsection \<open>Cells and columns\<close>

text \<open>
  Claim C9 fails on the code.  For the input \<^verbatim>\<open>[{"__proto__": 1}]\<close> the first record has the
  own key \<^verbatim>\<open>__proto__\<close>, which becomes the only column; \<^verbatim>\<open>buildCells\<close> assigns to
  \<^verbatim>\<open>cells["__proto__"]\<close>, which calls the inherited setter and creates no property, so
  the row's cells have no key at all.  For \<^verbatim>\<open>[{"toString": 1}, {}]\<close> the second record
  lacks the field, and its cell is not null but the text of the inherited method.
\<close>

theorem cells_miss_the_column_proto:
  "(case parse sample_engine 0 (str ''[{\"__proto__\": 1}]'') no_options of
      Inr (ds, n) \<Rightarrow> (map key (columns ds), map (\<lambda>r. map fst (props (cells r))) (rows ds))
    | Inl e \<Rightarrow> ([], []))
     = ([str ''__proto__''], [[]])
   \<and> (case parse sample_engine 0 (str ''[{\"toString\": 1}, {}]'') no_options of
        Inr (ds, n) \<Rightarrow> map (\<lambda>r. props (cells r)) (rows ds)
      | Inl e \<Rightarrow> [])
     = [[(str ''toString'', VNum (Fin 1))],
        [(str ''toString'', VStr (str ''function toString() { [native code] }''))]]"
  by code_simp

end
